theory Spec2Isabelle
  imports Main "HOL-Library.Word"
begin

unbundle bit_operations_syntax

section \<open>Shared data: bytes, files, HTTP messages, observable events\<close>

text \<open>
  The repository holds two implementations of one design: the Go package
  (\<^verbatim>\<open>fastgcs.go\<close>) and the Ruby class (\<^verbatim>\<open>lib/fastgcs.rb\<close>). Both are embedded here
  over the same picture of the outside world: a file system (a map from paths to a
  mode and a content), a clock, and the two HTTP endpoints. Strings are byte lists.
\<close>

type_synonym path = string
type_synonym bytes = string
type_synonym mode = "16 word"

abbreviation slash :: char where
  "slash \<equiv> CHR ''/''"

abbreviation newline :: char where
  "newline \<equiv> CHR 0x0A"

text \<open>Permission bits, written in octal in the sources: 0644, 0600, 0666.\<close>

abbreviation perm_0644 :: mode where
  "perm_0644 \<equiv> 0x1A4"

abbreviation perm_0600 :: mode where
  "perm_0600 \<equiv> 0x180"

abbreviation perm_0666 :: mode where
  "perm_0666 \<equiv> 0x1B6"

record inode =
  perm :: mode
  content :: bytes

record request =
  req_url :: string
  authorization :: string
  if_none_match :: "string option"

text \<open>
  A response body arrives as a stream: \<open>chunks\<close> are the pieces in the order they are
  read, and \<open>body_ok = False\<close> says the stream breaks with a read error after them.
\<close>

record response =
  status :: nat
  chunks :: "bytes list"
  body_ok :: bool
  etag :: "string option"

text \<open>
  Every effect a call has on the outside is appended to a trace. \<open>Write p c\<close> records
  that the file at \<open>p\<close> holds \<open>c\<close> after the step, so the trace lists every content
  a path has held, in order.
\<close>

datatype event =
    ReadFile path
  | Create path mode
  | Write path bytes
  | Rename path path
  | Remove path
  | Get request
  | Post string bytes

record world =
  files :: "path \<rightharpoonup> inode"
  umask :: mode
  denied :: "path \<Rightarrow> bool"
  trace :: "event list"

definition emit :: "event \<Rightarrow> world \<Rightarrow> world" where
  "emit e w = w\<lparr>trace := trace w @ [e]\<rparr>"

text \<open>The content a path holds, if it is a file.\<close>

definition content_at :: "world \<Rightarrow> path \<Rightarrow> bytes option" where
  "content_at w p = map_option content (files w p)"

text \<open>
  \<^verbatim>\<open>write(2)\<close> at an offset: the bytes before the offset stay (padded with zero bytes
  when the file is shorter), the data follows, and whatever the file held beyond the
  end of the data stays too. Nothing is cut off.
\<close>

definition write_at :: "bytes \<Rightarrow> nat \<Rightarrow> bytes \<Rightarrow> bytes" where
  "write_at old off data =
     take off old @ replicate (off - length old) (CHR 0x00) @ data
       @ drop (off + length data) old"

definition write_file :: "path \<Rightarrow> nat \<Rightarrow> bytes \<Rightarrow> world \<Rightarrow> world" where
  "write_file p off data w =
     (case files w p of
        None \<Rightarrow> w
      | Some fl \<Rightarrow>
          (let c = write_at (content fl) off data
           in emit (Write p c) (w\<lparr>files := (files w)(p \<mapsto> fl\<lparr>content := c\<rparr>)\<rparr>)))"

text \<open>
  \<^verbatim>\<open>open(path, O_WRONLY|O_CREAT, perm)\<close>: an existing file is opened as it is (its
  mode and its content stay: there is no \<^verbatim>\<open>O_TRUNC\<close>); a missing one is created
  empty with \<open>perm AND NOT umask\<close>. \<open>None\<close> is a failed open.
\<close>

definition open_wronly_creat :: "path \<Rightarrow> mode \<Rightarrow> world \<Rightarrow> world option" where
  "open_wronly_creat p pm w =
     (if denied w p then None
      else (case files w p of
              Some fl \<Rightarrow> Some w
            | None \<Rightarrow>
                Some (emit (Create p (pm AND NOT (umask w)))
                  (w\<lparr>files := (files w)(p \<mapsto> \<lparr>perm = pm AND NOT (umask w), content = []\<rparr>)\<rparr>))))"

text \<open>
  \<^verbatim>\<open>open(path, O_WRONLY|O_CREAT|O_TRUNC, perm)\<close>: as above, but an existing file is
  emptied (and keeps its mode).
\<close>

definition open_wronly_creat_trunc :: "path \<Rightarrow> mode \<Rightarrow> world \<Rightarrow> world option" where
  "open_wronly_creat_trunc p pm w =
     (if denied w p then None
      else (case files w p of
              Some fl \<Rightarrow>
                Some (emit (Write p []) (w\<lparr>files := (files w)(p \<mapsto> fl\<lparr>content := []\<rparr>)\<rparr>))
            | None \<Rightarrow>
                Some (emit (Create p (pm AND NOT (umask w)))
                  (w\<lparr>files := (files w)(p \<mapsto> \<lparr>perm = pm AND NOT (umask w), content = []\<rparr>)\<rparr>))))"

text \<open>Writing a stream to an open file: one write per chunk, each at the end of the last.\<close>

fun write_chunks :: "path \<Rightarrow> nat \<Rightarrow> bytes list \<Rightarrow> world \<Rightarrow> world" where
  "write_chunks p off [] w = w"
| "write_chunks p off (c # cs) w = write_chunks p (off + length c) cs (write_file p off c w)"

text \<open>\<^verbatim>\<open>rename(2)\<close>: the destination becomes the source file, whole, in one step.\<close>

definition rename_file :: "path \<Rightarrow> path \<Rightarrow> world \<Rightarrow> world" where
  "rename_file src dst w =
     (case files w src of
        None \<Rightarrow> w
      | Some fl \<Rightarrow> emit (Rename src dst) (w\<lparr>files := ((files w)(src := None))(dst \<mapsto> fl)\<rparr>))"

definition remove_file :: "path \<Rightarrow> world \<Rightarrow> world" where
  "remove_file p w =
     (case files w p of
        None \<Rightarrow> w
      | Some fl \<Rightarrow> emit (Remove p) (w\<lparr>files := (files w)(p := None)\<rparr>))"

section \<open>The reference parser\<close>

subsection \<open>Go: \<^verbatim>\<open>gsURLRegexp\<close> and \<^verbatim>\<open>parseGSURL\<close>\<close>

text \<open>
  \<^verbatim>\<open>regexp.MustCompile("^gs://([^/]+)/(.*)$").FindStringSubmatch\<close>. Go's \<^verbatim>\<open>^\<close> and
  \<^verbatim>\<open>$\<close> (no \<^verbatim>\<open>m\<close> flag) match only at the two ends of the text, \<^verbatim>\<open>[^/]\<close> is any
  character but the slash (a line feed included), and \<^verbatim>\<open>.\<close> (no \<^verbatim>\<open>s\<close> flag) is any
  character but the line feed. The greedy \<^verbatim>\<open>[^/]+\<close> must be followed by a slash, so it
  takes the whole run up to the first slash; \<^verbatim>\<open>(.*)$\<close> must take all the rest.
\<close>

definition gsURLRegexp :: "string \<Rightarrow> (string \<times> string) option" where
  "gsURLRegexp s =
     (if take 5 s = ''gs://''
      then (let rest = drop 5 s;
                bucket = takeWhile (\<lambda>c. c \<noteq> slash) rest;
                after = dropWhile (\<lambda>c. c \<noteq> slash) rest
            in if bucket = [] \<or> after = [] then None
               else if newline \<in> set (tl after) then None
               else Some (bucket, tl after))
      else None)"

datatype go_error =
    InvalidGCSURL string
  | NoAccessToken
  | UnmarshalError
  | NewRequestError
  | TransportError
  | OpenError path
  | CopyError
  | NilPointerDereference
  | HomeDirError

text \<open>
  Go returns \<^verbatim>\<open>("", "", err)\<close> on failure; the sum type carries the error alone, so a
  failed parse has no bucket and no key at all.
\<close>

definition parseGSURL :: "string \<Rightarrow> go_error + (string \<times> string)" where
  "parseGSURL gsURL =
     (case gsURLRegexp gsURL of
        None \<Rightarrow> Inl (InvalidGCSURL gsURL)
      | Some (bucket, object) \<Rightarrow> Inr (bucket, object))"

subsection \<open>Ruby: \<^verbatim>\<open>parse_gs_url\<close>\<close>

text \<open>
  \<^verbatim>\<open>url.match(%r{^gs://([^/]+)/(.*)$})\<close>. In Ruby \<^verbatim>\<open>^\<close> and \<^verbatim>\<open>$\<close> are line anchors
  and \<^verbatim>\<open>match\<close> searches: the pattern is tried at the start of the string and then
  after every line feed, leftmost first. At one start, \<^verbatim>\<open>(.*)$\<close> takes the rest of
  the line.
\<close>

definition gs_match_at :: "string \<Rightarrow> (string \<times> string) option" where
  "gs_match_at s =
     (if take 5 s = ''gs://''
      then (let rest = drop 5 s;
                bucket = takeWhile (\<lambda>c. c \<noteq> slash) rest;
                after = dropWhile (\<lambda>c. c \<noteq> slash) rest
            in if bucket = [] \<or> after = [] then None
               else Some (bucket, takeWhile (\<lambda>c. c \<noteq> newline) (tl after)))
      else None)"

fun line_starts :: "string \<Rightarrow> string list" where
  "line_starts [] = []"
| "line_starts (c # cs) = (if c = newline then cs # line_starts cs else line_starts cs)"

fun first_match :: "string list \<Rightarrow> (string \<times> string) option" where
  "first_match [] = None"
| "first_match (s # ss) = (case gs_match_at s of Some r \<Rightarrow> Some r | None \<Rightarrow> first_match ss)"

datatype ruby_error =
    ArgumentError
  | HTTPError nat
  | ENOENT path
  | EACCES path
  | ParseError
  | KeyError
  | NoMethodError
  | ConnectionError

definition parse_gs_url :: "string \<Rightarrow> ruby_error + (string \<times> string)" where
  "parse_gs_url url =
     (case first_match (url # line_starts url) of
        None \<Rightarrow> Inl ArgumentError
      | Some (bucket, object) \<Rightarrow> Inr (bucket, object))"

section \<open>Cache paths\<close>

subsection \<open>Go: \<^verbatim>\<open>filepath.Join\<close> and \<^verbatim>\<open>cachePath\<close>\<close>

fun split_on :: "char \<Rightarrow> string \<Rightarrow> string list" where
  "split_on d [] = [[]]"
| "split_on d (c # cs) =
     (if c = d then [] # split_on d cs
      else (case split_on d cs of [] \<Rightarrow> [[c]] | h # t \<Rightarrow> (c # h) # t))"

fun join_with :: "string \<Rightarrow> string list \<Rightarrow> string" where
  "join_with sep [] = []"
| "join_with sep [x] = x"
| "join_with sep (x # y # ys) = x @ sep @ join_with sep (y # ys)"

text \<open>
  \<^verbatim>\<open>filepath.Clean\<close> (Unix), by its documented rules: empty and \<^verbatim>\<open>.\<close> elements go, a
  \<^verbatim>\<open>..\<close> takes the element before it away (at the root it just goes), and the empty
  result is \<^verbatim>\<open>.\<close>.
\<close>

definition clean_step :: "bool \<Rightarrow> string list \<Rightarrow> string \<Rightarrow> string list" where
  "clean_step rooted acc e =
     (if e = [] \<or> e = ''.'' then acc
      else if e = ''..'' then
        (if acc = [] then (if rooted then acc else [e])
         else if last acc = ''..'' then acc @ [e]
         else butlast acc)
      else acc @ [e])"

definition Clean :: "string \<Rightarrow> string" where
  "Clean p =
     (let rooted = (take 1 p = ''/'');
          out = join_with ''/'' (foldl (clean_step rooted) [] (split_on slash p))
      in if rooted then ''/'' @ out else if out = [] then ''.'' else out)"

text \<open>\<^verbatim>\<open>filepath.Join\<close>: leading empty elements are dropped, the rest joined and cleaned.\<close>

definition Join :: "string list \<Rightarrow> string" where
  "Join elem =
     (case dropWhile (\<lambda>e. e = []) elem of
        [] \<Rightarrow> []
      | e # es \<Rightarrow> Clean (join_with ''/'' (e # es)))"

text \<open>\<^verbatim>\<open>strings.ReplaceAll(object, "/", "-")\<close>, and Ruby's \<^verbatim>\<open>object.tr('/', '-')\<close>.\<close>

definition flatten_key :: "string \<Rightarrow> string" where
  "flatten_key object = map (\<lambda>c. if c = slash then CHR ''-'' else c) object"

record token =
  Token :: string
  Expiry :: int

record fastGCS =
  cacheRoot :: string
  gcloudConfigDir :: string
  token :: "token option"

definition cachePath :: "fastGCS \<Rightarrow> string \<Rightarrow> go_error + path" where
  "cachePath f gsURL =
     (case parseGSURL gsURL of
        Inl err \<Rightarrow> Inl err
      | Inr (bucket, object) \<Rightarrow>
          Inr (Join [cacheRoot f, bucket @ ''--'' @ flatten_key object]))"

text \<open>The last element of a slash-separated path.\<close>

definition final_component :: "path \<Rightarrow> string" where
  "final_component p = last (split_on slash p)"

section \<open>The Go package\<close>

text \<open>
  What a call reads from outside: the clock (\<^verbatim>\<open>time.Now()\<close>, seconds), the JSON
  decoder of the token record (\<^verbatim>\<open>json.Unmarshal\<close> into \<^verbatim>\<open>token\<close>; \<open>None\<close> is its
  error), whether \<^verbatim>\<open>http.NewRequest\<close> accepts a URL, the storage endpoint behind
  \<^verbatim>\<open>client.Do\<close> (\<open>None\<close> is a transport error), and the home directory
  (\<^verbatim>\<open>os.UserHomeDir\<close>).
\<close>

record go_env =
  time_Now :: int
  json_Unmarshal :: "bytes \<Rightarrow> token option"
  http_NewRequest :: "string \<Rightarrow> bool"
  client_Do :: "request \<Rightarrow> response option"
  os_UserHomeDir :: "string option"

definition credentialsCacheBasename :: string where
  "credentialsCacheBasename = ''com.shopify.fastgcs.json''"

text \<open>\<^verbatim>\<open>New\<close>: the error of \<^verbatim>\<open>os.MkdirAll\<close> is dropped by the source, and so is its effect here.\<close>

definition New :: "go_env \<Rightarrow> go_error + fastGCS" where
  "New env =
     (case os_UserHomeDir env of
        None \<Rightarrow> Inl HomeDirError
      | Some home \<Rightarrow>
          Inr \<lparr>cacheRoot = Join [home, ''.cache'', ''fastgcs''],
               gcloudConfigDir = Join [home, ''.config'', ''gcloud''],
               token = None\<rparr>)"

text \<open>
  \<^verbatim>\<open>findTokenInCache\<close>: any read error gives \<^verbatim>\<open>(nil, nil)\<close>; a decoding error is
  returned; otherwise the decoded record, whatever its expiry.
\<close>

definition findTokenInCache ::
  "go_env \<Rightarrow> fastGCS \<Rightarrow> world \<Rightarrow> (go_error + token option) \<times> world" where
  "findTokenInCache env f w =
     (let p = Join [gcloudConfigDir f, credentialsCacheBasename];
          w1 = emit (ReadFile p) w
      in (case content_at w p of
            None \<Rightarrow> (Inr None, w1)
          | Some data \<Rightarrow>
              (case json_Unmarshal env data of
                 None \<Rightarrow> (Inl UnmarshalError, w1)
               | Some cache \<Rightarrow> (Inr (Some cache), w1))))"

text \<open>
  \<^verbatim>\<open>ensureCurrentToken\<close>. The result is the returned \<^verbatim>\<open>error\<close> (\<open>None\<close> for \<^verbatim>\<open>nil\<close>),
  the receiver after the call and the world after the call.
  \<^verbatim>\<open>time.Now().Before(tok.Expiry)\<close> is \<open>time_Now env < Expiry tok\<close>.
\<close>

definition token_current :: "go_env \<Rightarrow> token option \<Rightarrow> bool" where
  "token_current env tok =
     (case tok of None \<Rightarrow> False | Some t \<Rightarrow> time_Now env < Expiry t)"

definition ensureCurrentToken ::
  "go_env \<Rightarrow> fastGCS \<Rightarrow> world \<Rightarrow> go_error option \<times> fastGCS \<times> world" where
  "ensureCurrentToken env f w =
     (if token_current env (token f) then (None, f, w)
      else (case findTokenInCache env f w of
              (Inl err, w1) \<Rightarrow> (Some err, f, w1)
            | (Inr (Some tok), w1) \<Rightarrow> (None, f\<lparr>token := Some tok\<rparr>, w1)
            | (Inr None, w1) \<Rightarrow> (Some NoAccessToken, f, w1)))"

definition apiFetchURL :: "string \<Rightarrow> go_error + string" where
  "apiFetchURL gsURL =
     (case parseGSURL gsURL of
        Inl err \<Rightarrow> Inl err
      | Inr (bucket, object) \<Rightarrow>
          Inr (''https://storage.googleapis.com/storage/v1/b/'' @ bucket @ ''/o/'' @ object
                 @ ''?alt=media''))"

text \<open>
  The request \<^verbatim>\<open>update\<close> builds: \<^verbatim>\<open>http.NewRequest("GET", url, nil)\<close> with the one
  header \<^verbatim>\<open>Authorization: Bearer <f.token.Token>\<close>. No \<^verbatim>\<open>If-None-Match\<close> is ever set.
\<close>

definition bearer_request :: "string \<Rightarrow> token \<Rightarrow> request" where
  "bearer_request url tok =
     \<lparr>req_url = url, authorization = ''Bearer '' @ Token tok, if_none_match = None\<rparr>"

text \<open>
  \<^verbatim>\<open>update\<close>, statement by statement. \<^verbatim>\<open>f.token.Token\<close> with \<^verbatim>\<open>f.token == nil\<close> is a
  nil-pointer panic: it ends the call (and the process) before any request is sent.
  The response status is never read. The cache file itself is opened with
  \<^verbatim>\<open>O_WRONLY|O_CREATE\<close> and the body is copied into it from offset 0, chunk by chunk;
  a read error of the body ends the copy after the chunks already written.
\<close>

definition update :: "go_env \<Rightarrow> fastGCS \<Rightarrow> string \<Rightarrow> world \<Rightarrow> (go_error + path) \<times> world" where
  "update env f gsURL w =
     (case cachePath f gsURL of
        Inl err \<Rightarrow> (Inl err, w)
      | Inr p \<Rightarrow>
     (case apiFetchURL gsURL of
        Inl err \<Rightarrow> (Inl err, w)
      | Inr url \<Rightarrow>
     (if http_NewRequest env url then
     (case token f of
        None \<Rightarrow> (Inl NilPointerDereference, w)
      | Some tok \<Rightarrow>
     (let req = bearer_request url tok;
          w1 = emit (Get req) w
      in (case client_Do env req of
            None \<Rightarrow> (Inl TransportError, w1)
          | Some res \<Rightarrow>
         (case open_wronly_creat p perm_0644 w1 of
            None \<Rightarrow> (Inl (OpenError p), w1)
          | Some w2 \<Rightarrow>
              (let w3 = write_chunks p 0 (chunks res) w2
               in if body_ok res then (Inr p, w3) else (Inl CopyError, w3))))))
      else (Inl NewRequestError, w))))"

text \<open>
  \<^verbatim>\<open>copyFile\<close>: the destination is opened without truncation too; \<^verbatim>\<open>io.Copy\<close> from a
  file is one stream of its content.
\<close>

definition copyFile :: "path \<Rightarrow> path \<Rightarrow> mode \<Rightarrow> world \<Rightarrow> go_error option \<times> world" where
  "copyFile srcPath dstPath m w =
     (case content_at w srcPath of
        None \<Rightarrow> (Some (OpenError srcPath), emit (ReadFile srcPath) w)
      | Some data \<Rightarrow>
          (case open_wronly_creat dstPath m (emit (ReadFile srcPath) w) of
             None \<Rightarrow> (Some (OpenError dstPath), emit (ReadFile srcPath) w)
           | Some w1 \<Rightarrow> (None, write_chunks dstPath 0 [data] w1)))"

text \<open>
  The three public operations. \<^verbatim>\<open>Open\<close> calls \<^verbatim>\<open>ensureCurrentToken\<close> and drops the
  error it returns; \<^verbatim>\<open>Copy\<close> and \<^verbatim>\<open>Read\<close> do not call it. The reader \<^verbatim>\<open>Open\<close> hands
  back is modelled by the bytes it reads.
\<close>

definition Open ::
  "go_env \<Rightarrow> fastGCS \<Rightarrow> string \<Rightarrow> world \<Rightarrow> (go_error + bytes) \<times> fastGCS \<times> world" where
  "Open env f gsURL w =
     (case ensureCurrentToken env f w of
        (ignored, f1, w1) \<Rightarrow>
          (case update env f1 gsURL w1 of
             (Inl err, w2) \<Rightarrow> (Inl err, f1, w2)
           | (Inr p, w2) \<Rightarrow>
               (case content_at w2 p of
                  None \<Rightarrow> (Inl (OpenError p), f1, emit (ReadFile p) w2)
                | Some data \<Rightarrow> (Inr data, f1, emit (ReadFile p) w2))))"

definition Copy ::
  "go_env \<Rightarrow> fastGCS \<Rightarrow> string \<Rightarrow> path \<Rightarrow> world \<Rightarrow> go_error option \<times> world" where
  "Copy env f gsURL dst w =
     (case update env f gsURL w of
        (Inl err, w1) \<Rightarrow> (Some err, w1)
      | (Inr p, w1) \<Rightarrow> copyFile p dst perm_0644 w1)"

definition Read ::
  "go_env \<Rightarrow> fastGCS \<Rightarrow> string \<Rightarrow> world \<Rightarrow> (go_error + bytes) \<times> world" where
  "Read env f gsURL w =
     (case update env f gsURL w of
        (Inl err, w1) \<Rightarrow> (Inl err, w1)
      | (Inr p, w1) \<Rightarrow>
          (case content_at w1 p of
             None \<Rightarrow> (Inl (OpenError p), emit (ReadFile p) w1)
           | Some data \<Rightarrow> (Inr data, emit (ReadFile p) w1)))"

section \<open>The Ruby class\<close>

text \<open>
  What a call reads from outside: the clock, the home directory the four path
  constants are expanded in, the directory \<^verbatim>\<open>Dir.mktmpdir\<close> hands out, the storage
  endpoint (\<open>None\<close>: the connection fails), the token endpoint (status and body), and the
  library routines the class calls on file contents: the decoding of the cache record
  (\<^verbatim>\<open>JSON.parse\<close>, the two \<^verbatim>\<open>fetch\<close>es and \<^verbatim>\<open>Time.parse\<close>; \<open>None\<close> is any of their
  exceptions), the two \<^verbatim>\<open>scan\<close>s of the gcloud databases, \<^verbatim>\<open>Time.parse\<close>, the
  decoding of the refresh response (\<open>None\<close>: \<^verbatim>\<open>JSON.parse\<close> raises; otherwise what
  \<^verbatim>\<open>fetch('access_token')\<close> and \<^verbatim>\<open>fetch('expires_in')\<close> find, \<open>None\<close> for a missing
  key) and the two \<^verbatim>\<open>to_json\<close> serialisations.

  Two more readings belong to the Ruby runtime. A \<^verbatim>\<open>File\<close> buffers what is written to
  it: \<open>io_flushed env data\<close> is how many bytes of \<open>data\<close>, written with \<^verbatim>\<open>io.write\<close>,
  have reached the file before it is closed (anything from none to all of them); the
  rest reaches it at \<^verbatim>\<open>close\<close>. And \<open>File_rename env src dst\<close> is what the
  \<^verbatim>\<open>File.rename\<close> inside \<^verbatim>\<open>FileUtils.mv\<close> does with an existing source: it renames,
  it fails with \<^verbatim>\<open>Errno::EXDEV\<close> (the two paths are on different file systems;
  \<^verbatim>\<open>mv\<close> then copies the file and removes the source), or it fails with another
  error, which \<^verbatim>\<open>mv\<close> raises.
\<close>

datatype rename_outcome =
    Renamed
  | EXDEV
  | RenameFails ruby_error

record ruby_env =
  Time_now :: int
  home :: string
  mktmpdir :: path
  storage :: "request \<Rightarrow> response option"
  token_endpoint :: "bytes \<Rightarrow> (nat \<times> bytes) option"
  parse_cache_record :: "bytes \<Rightarrow> (string \<times> int) option"
  scan_access_tokens :: "bytes \<Rightarrow> (string \<times> string) list"
  Time_parse :: "string \<Rightarrow> int option"
  scan_credentials :: "bytes \<Rightarrow> (string \<times> string \<times> string) option"
  parse_refresh :: "bytes \<Rightarrow> (string option \<times> int option) option"
  cache_record_json :: "string option \<Rightarrow> int option \<Rightarrow> bytes"
  refresh_request_json :: "string \<Rightarrow> string \<Rightarrow> string \<Rightarrow> bytes"
  io_flushed :: "bytes \<Rightarrow> nat"
  File_rename :: "path \<Rightarrow> path \<Rightarrow> rename_outcome"

text \<open>The instance variables; \<open>None\<close> is \<^verbatim>\<open>nil\<close>.\<close>

record fast_gcs =
  at_token :: "string option"
  at_expiry :: "int option"
  at_client_id :: string
  at_client_secret :: string
  at_refresh_token :: string

definition CREDENTIALS_DB :: "ruby_env \<Rightarrow> path" where
  "CREDENTIALS_DB env = home env @ ''/.config/gcloud/credentials.db''"

definition ACCESS_TOKENS_DB :: "ruby_env \<Rightarrow> path" where
  "ACCESS_TOKENS_DB env = home env @ ''/.config/gcloud/access_tokens.db''"

definition CREDENTIAL_CACHE :: "ruby_env \<Rightarrow> path" where
  "CREDENTIAL_CACHE env = home env @ ''/.config/gcloud/com.shopify.fastgcs.json''"

definition CACHE :: "ruby_env \<Rightarrow> path" where
  "CACHE env = home env @ ''/.cache/fastgcs''"

text \<open>
  \<^verbatim>\<open>File.join\<close> of two strings puts exactly one slash between them; \<^verbatim>\<open>File.dirname\<close>
  and \<^verbatim>\<open>File.basename\<close> for a path that does not end in a slash.
\<close>

definition File_join :: "string \<Rightarrow> string \<Rightarrow> string" where
  "File_join a b =
     rev (dropWhile (\<lambda>c. c = slash) (rev a)) @ ''/'' @ dropWhile (\<lambda>c. c = slash) b"

definition File_basename :: "path \<Rightarrow> string" where
  "File_basename p = last (split_on slash p)"

definition File_dirname :: "path \<Rightarrow> string" where
  "File_dirname p =
     (let parts = butlast (split_on slash p)
      in if parts = [] then ''.''
         else if join_with ''/'' parts = [] then ''/''
         else join_with ''/'' parts)"

definition cache_path :: "ruby_env \<Rightarrow> string \<Rightarrow> ruby_error + path" where
  "cache_path env url =
     (case parse_gs_url url of
        Inl err \<Rightarrow> Inl err
      | Inr (bucket, object) \<Rightarrow> Inr (File_join (CACHE env) (bucket @ ''--'' @ flatten_key object)))"

definition etag_path :: "path \<Rightarrow> path" where
  "etag_path p = File_join (File_dirname p) (''.'' @ File_basename p @ ''.etag'')"

text \<open>
  \<^verbatim>\<open>File.write(path, data)\<close> opens with \<^verbatim>\<open>O_WRONLY|O_CREAT|O_TRUNC\<close> and mode 0666, then
  writes: the path holds the empty file first and the data next.
\<close>

definition File_write :: "path \<Rightarrow> bytes \<Rightarrow> world \<Rightarrow> ruby_error option \<times> world" where
  "File_write p data w =
     (case open_wronly_creat_trunc p perm_0666 w of
        None \<Rightarrow> (Some (EACCES p), w)
      | Some w1 \<Rightarrow> (None, write_file p 0 data w1))"

text \<open>
  \<^verbatim>\<open>update_cache\<close>: \<^verbatim>\<open>File.write\<close> on the cache path itself, then a second write of the
  same record through \<^verbatim>\<open>File.open(..., File::WRONLY|File::CREAT, 0600)\<close>.
\<close>

definition update_cache :: "ruby_env \<Rightarrow> fast_gcs \<Rightarrow> world \<Rightarrow> ruby_error option \<times> world" where
  "update_cache env self w =
     (let p = CREDENTIAL_CACHE env;
          json = cache_record_json env (at_token self) (at_expiry self)
      in (case File_write p json w of
            (Some err, w1) \<Rightarrow> (Some err, w1)
          | (None, w1) \<Rightarrow>
              (case open_wronly_creat p perm_0600 w1 of
                 None \<Rightarrow> (Some (EACCES p), w1)
               | Some w2 \<Rightarrow> (None, write_file p 0 json w2))))"

text \<open>
  The three tiers. Each returns \<^verbatim>\<open>true\<close>/\<^verbatim>\<open>false\<close> (\<open>Inr\<close>) or raises (\<open>Inl\<close>).
  Only \<^verbatim>\<open>try_access_token_from_cache\<close> rescues \<^verbatim>\<open>Errno::ENOENT\<close>.
  \<^verbatim>\<open>refresh_access_token\<close> assigns \<^verbatim>\<open>@token\<close> before it fetches \<^verbatim>\<open>expires_in\<close>, so a
  response without that key leaves the new token with the old expiry.
\<close>

definition try_access_token_from_cache ::
  "ruby_env \<Rightarrow> fast_gcs \<Rightarrow> world \<Rightarrow> (ruby_error + bool) \<times> fast_gcs \<times> world" where
  "try_access_token_from_cache env self w =
     (let p = CREDENTIAL_CACHE env; w1 = emit (ReadFile p) w
      in (case content_at w p of
            None \<Rightarrow> (Inr False, self, w1)
          | Some data \<Rightarrow>
              (case parse_cache_record env data of
                 None \<Rightarrow> (Inl ParseError, self, w1)
               | Some (tok, expiry) \<Rightarrow>
                   if expiry > Time_now env
                   then (Inr True, self\<lparr>at_token := Some tok, at_expiry := Some expiry\<rparr>, w1)
                   else (Inr False, self, w1))))"

definition try_access_token_from_gcloud_db ::
  "ruby_env \<Rightarrow> fast_gcs \<Rightarrow> world \<Rightarrow> (ruby_error + bool) \<times> fast_gcs \<times> world" where
  "try_access_token_from_gcloud_db env self w =
     (let p = ACCESS_TOKENS_DB env; w1 = emit (ReadFile p) w
      in (case content_at w p of
            None \<Rightarrow> (Inl (ENOENT p), self, w1)
          | Some db \<Rightarrow>
              (case scan_access_tokens env db of
                 [(tok, stamp)] \<Rightarrow>
                   (case Time_parse env (stamp @ '' UTC'') of
                      None \<Rightarrow> (Inl ParseError, self, w1)
                    | Some expiry \<Rightarrow>
                        if expiry > Time_now env
                        then (Inr True, self\<lparr>at_token := Some tok, at_expiry := Some expiry\<rparr>, w1)
                        else (Inr False, self, w1))
               | _ \<Rightarrow> (Inr False, self, w1))))"

definition refresh_access_token ::
  "ruby_env \<Rightarrow> fast_gcs \<Rightarrow> world \<Rightarrow> (ruby_error + bool) \<times> fast_gcs \<times> world" where
  "refresh_access_token env self w =
     (let body = refresh_request_json env (at_client_id self) (at_client_secret self)
                   (at_refresh_token self);
          w1 = emit (Post ''https://oauth2.googleapis.com/token'' body) w
      in (case token_endpoint env body of
            None \<Rightarrow> (Inl ConnectionError, self, w1)
          | Some (code, answer) \<Rightarrow>
              if code = 200
              then (case parse_refresh env answer of
                      None \<Rightarrow> (Inl ParseError, self, w1)
                    | Some (None, expires_in) \<Rightarrow> (Inl KeyError, self, w1)
                    | Some (Some tok, None) \<Rightarrow> (Inl KeyError, self\<lparr>at_token := Some tok\<rparr>, w1)
                    | Some (Some tok, Some expires_in) \<Rightarrow>
                        (Inr True,
                         self\<lparr>at_token := Some tok, at_expiry := Some (Time_now env + expires_in)\<rparr>,
                         w1))
              else (Inl (HTTPError code), self, w1)))"

text \<open>
  \<^verbatim>\<open>found ||= tier\<close>: the tier runs only while \<^verbatim>\<open>found\<close> is false.
\<close>

definition or_else ::
  "(ruby_error + bool) \<times> fast_gcs \<times> world \<Rightarrow>
   (fast_gcs \<Rightarrow> world \<Rightarrow> (ruby_error + bool) \<times> fast_gcs \<times> world) \<Rightarrow>
   (ruby_error + bool) \<times> fast_gcs \<times> world" where
  "or_else r tier =
     (case r of
        (Inl err, self, w) \<Rightarrow> (Inl err, self, w)
      | (Inr True, self, w) \<Rightarrow> (Inr True, self, w)
      | (Inr False, self, w) \<Rightarrow> tier self w)"

text \<open>\<^verbatim>\<open>@token && @expiry > Time.now\<close>; comparing \<^verbatim>\<open>nil\<close> raises \<^verbatim>\<open>NoMethodError\<close>.\<close>

definition token_fresh :: "ruby_env \<Rightarrow> fast_gcs \<Rightarrow> ruby_error + bool" where
  "token_fresh env self =
     (case at_token self of
        None \<Rightarrow> Inr False
      | Some tok \<Rightarrow>
          (case at_expiry self of
             None \<Rightarrow> Inl NoMethodError
           | Some expiry \<Rightarrow> Inr (expiry > Time_now env)))"

definition ensure_current_token ::
  "ruby_env \<Rightarrow> fast_gcs \<Rightarrow> world \<Rightarrow> ruby_error option \<times> fast_gcs \<times> world" where
  "ensure_current_token env self w =
     (case token_fresh env self of
        Inl err \<Rightarrow> (Some err, self, w)
      | Inr True \<Rightarrow> (None, self, w)
      | Inr False \<Rightarrow>
          (case or_else (or_else (try_access_token_from_cache env self w)
                           (try_access_token_from_gcloud_db env))
                  (refresh_access_token env) of
             (Inl err, self1, w1) \<Rightarrow> (Some err, self1, w1)
           | (Inr found, self1, w1) \<Rightarrow>
               (case update_cache env self1 w1 of (r, w2) \<Rightarrow> (r, self1, w2))))"

text \<open>
  \<^verbatim>\<open>get(http, url, io, etag:)\<close>. \<open>io\<close> is the open temporary file, given by its path.
  The result is the new ETag (\<open>Inr (Some e)\<close>), \<^verbatim>\<open>nil\<close> (\<open>Inr None\<close>) or the exception,
  and with it the state of the buffer of \<open>io\<close>: the file offset its content belongs at
  and the bytes written with \<^verbatim>\<open>io.write\<close> that have not reached the file yet. Of the
  body \<^verbatim>\<open>read_body\<close> hands over, the first \<open>io_flushed env\<close> bytes are in the file
  (recorded as one write) and the rest is in the buffer.
  \<^verbatim>\<open>"Bearer #{@token}"\<close> with \<^verbatim>\<open>@token == nil\<close> interpolates the empty string.
\<close>

definition bearer :: "string option \<Rightarrow> string" where
  "bearer tok = ''Bearer '' @ (case tok of None \<Rightarrow> [] | Some t \<Rightarrow> t)"

text \<open>
  The request \<^verbatim>\<open>get\<close> builds for a bucket, a key, a token and a known ETag: the
  \<^verbatim>\<open>Authorization\<close> header always, \<^verbatim>\<open>If-None-Match\<close> when an ETag is known.
\<close>

definition storage_request :: "string \<Rightarrow> string \<Rightarrow> string option \<Rightarrow> string option \<Rightarrow> request" where
  "storage_request bucket object tok etg =
     \<lparr>req_url = ''https://storage.googleapis.com/storage/v1/b/'' @ bucket @ ''/o/''
                  @ object @ ''?alt=media'',
      authorization = bearer tok,
      if_none_match = etg\<rparr>"

definition io_write :: "ruby_env \<Rightarrow> path \<Rightarrow> bytes \<Rightarrow> world \<Rightarrow> world \<times> nat \<times> bytes" where
  "io_write env io data w =
     (let n = min (io_flushed env data) (length data)
      in (if n = 0 then w else write_file io 0 (take n data) w, n, drop n data))"

definition get ::
  "ruby_env \<Rightarrow> fast_gcs \<Rightarrow> string \<Rightarrow> path \<Rightarrow> string option \<Rightarrow> world \<Rightarrow>
   (ruby_error + string option) \<times> fast_gcs \<times> world \<times> nat \<times> bytes" where
  "get env self url io etg w =
     (case ensure_current_token env self w of
        (Some err, self1, w1) \<Rightarrow> (Inl err, self1, w1, 0, [])
      | (None, self1, w1) \<Rightarrow>
     (case parse_gs_url url of
        Inl err \<Rightarrow> (Inl err, self1, w1, 0, [])
      | Inr (bucket, object) \<Rightarrow>
     (let req = storage_request bucket object (at_token self1) etg;
          w2 = emit (Get req) w1
      in (case storage env req of
            None \<Rightarrow> (Inl ConnectionError, self1, w2, 0, [])
          | Some resp \<Rightarrow>
              if status resp = 200 then
                (case io_write env io (concat (chunks resp)) w2 of
                   (w3, buf) \<Rightarrow>
                     if body_ok resp then (Inr (etag resp), self1, w3, buf)
                     else (Inl ConnectionError, self1, w3, buf))
              else if status resp = 304 then (Inr None, self1, w2, 0, [])
              else (Inl (HTTPError (status resp)), self1, w2, 0, [])))))"

text \<open>
  Closing the file writes the buffer out, at its offset, to wherever the open file now
  is: \<open>Some q\<close> when the file has the name \<open>q\<close>, \<open>None\<close> when it has been unlinked (the
  bytes then go to a file nobody can open).
\<close>

definition io_close :: "path option \<Rightarrow> nat \<times> bytes \<Rightarrow> world \<Rightarrow> world" where
  "io_close loc buf w =
     (case loc of
        None \<Rightarrow> w
      | Some q \<Rightarrow> if snd buf = [] then w else write_file q (fst buf) (snd buf) w)"

text \<open>
  \<^verbatim>\<open>FileUtils.mv(src, dst)\<close>: \<^verbatim>\<open>File.rename\<close>, and on \<^verbatim>\<open>Errno::EXDEV\<close> a copy
  of the file as it is on disk over the destination (opened for writing with
  truncation; the mode of the source is set on it afterwards), then the removal of the
  source. The result is the exception if any, the world, and where the file that was
  open at \<open>src\<close> is afterwards (\<open>None\<close>: it has no name any more).
\<close>

definition FileUtils_mv ::
  "ruby_env \<Rightarrow> path \<Rightarrow> path \<Rightarrow> world \<Rightarrow> ruby_error option \<times> world \<times> path option" where
  "FileUtils_mv env src dst w =
     (case files w src of
        None \<Rightarrow> (Some (ENOENT src), w, None)
      | Some fl \<Rightarrow>
          (case File_rename env src dst of
             Renamed \<Rightarrow> (None, rename_file src dst w, Some dst)
           | RenameFails err \<Rightarrow> (Some err, w, Some src)
           | EXDEV \<Rightarrow>
               if denied w dst then (Some (EACCES dst), w, Some src)
               else (None,
                     remove_file src
                       (emit (Write dst (content fl))
                          (emit (case files w dst of
                                   None \<Rightarrow> Create dst (perm fl AND NOT (umask w))
                                 | Some old \<Rightarrow> Write dst [])
                             (w\<lparr>files := (files w)(dst \<mapsto> fl)\<rparr>))),
                     None)))"

text \<open>
  \<^verbatim>\<open>update_http\<close>. The body is written to \<^verbatim>\<open>file\<close> in the temporary directory; only
  when \<^verbatim>\<open>get\<close> returns an ETag is the file moved onto the cache path and the sidecar
  written, in that order. Both happen inside the \<^verbatim>\<open>File.open\<close> block: the file is
  closed, and its buffer written out, after them. \<^verbatim>\<open>Dir.mktmpdir\<close> removes the
  directory on every way out.
\<close>

definition update_http ::
  "ruby_env \<Rightarrow> fast_gcs \<Rightarrow> path \<Rightarrow> string \<Rightarrow> world \<Rightarrow> ruby_error option \<times> fast_gcs \<times> world" where
  "update_http env self p url w =
     (let w0 = emit (ReadFile (etag_path p)) w;
          etg = content_at w (etag_path p);
          tmp = File_join (mktmpdir env) ''file''
      in (case open_wronly_creat tmp perm_0644 w0 of
            None \<Rightarrow> (Some (EACCES tmp), self, w0)
          | Some w1 \<Rightarrow>
              (case get env self url tmp etg w1 of
                 (Inl err, self1, w2, buf) \<Rightarrow>
                   (Some err, self1, remove_file tmp (io_close (Some tmp) buf w2))
               | (Inr None, self1, w2, buf) \<Rightarrow>
                   (None, self1, remove_file tmp (io_close (Some tmp) buf w2))
               | (Inr (Some new_etag), self1, w2, buf) \<Rightarrow>
                   (case FileUtils_mv env tmp p w2 of
                      (Some err, w3, loc) \<Rightarrow>
                        (Some err, self1, remove_file tmp (io_close loc buf w3))
                    | (None, w3, loc) \<Rightarrow>
                        (case File_write (etag_path p) new_etag w3 of
                           (r, w4) \<Rightarrow> (r, self1, remove_file tmp (io_close loc buf w4)))))))"

text \<open>
  \<^verbatim>\<open>update(url)\<close> of the Ruby class (the name \<open>update\<close> is the Go method's here). The
  connection \<^verbatim>\<open>Net::HTTP.start\<close> opens is the one \<^verbatim>\<open>get\<close> sends its request on.
\<close>

definition ruby_update ::
  "ruby_env \<Rightarrow> fast_gcs \<Rightarrow> string \<Rightarrow> world \<Rightarrow> (ruby_error + path) \<times> fast_gcs \<times> world" where
  "ruby_update env self url w =
     (case cache_path env url of
        Inl err \<Rightarrow> (Inl err, self, w)
      | Inr p \<Rightarrow>
          (case update_http env self p url w of
             (Some err, self1, w1) \<Rightarrow> (Inl err, self1, w1)
           | (None, self1, w1) \<Rightarrow> (Inr p, self1, w1)))"

text \<open>\<^verbatim>\<open>read(url)\<close>: \<^verbatim>\<open>update\<close>, then \<^verbatim>\<open>File.read\<close> of the cache path.\<close>

definition ruby_read ::
  "ruby_env \<Rightarrow> fast_gcs \<Rightarrow> string \<Rightarrow> world \<Rightarrow> (ruby_error + bytes) \<times> fast_gcs \<times> world" where
  "ruby_read env self url w =
     (case ruby_update env self url w of
        (Inl err, self1, w1) \<Rightarrow> (Inl err, self1, w1)
      | (Inr p, self1, w1) \<Rightarrow>
          (case content_at w1 p of
             None \<Rightarrow> (Inl (ENOENT p), self1, emit (ReadFile p) w1)
           | Some data \<Rightarrow> (Inr data, self1, emit (ReadFile p) w1)))"

text \<open>
  \<^verbatim>\<open>open(url)\<close> hands back the cache file opened for reading, modelled by the bytes it
  reads; \<^verbatim>\<open>cp(url, to)\<close> copies the cache file with \<^verbatim>\<open>FileUtils.cp\<close>, which
  truncates the destination.
\<close>

definition ruby_open ::
  "ruby_env \<Rightarrow> fast_gcs \<Rightarrow> string \<Rightarrow> world \<Rightarrow> (ruby_error + bytes) \<times> fast_gcs \<times> world" where
  "ruby_open env self url w = ruby_read env self url w"

definition ruby_cp ::
  "ruby_env \<Rightarrow> fast_gcs \<Rightarrow> string \<Rightarrow> path \<Rightarrow> world \<Rightarrow> ruby_error option \<times> fast_gcs \<times> world" where
  "ruby_cp env self url to w =
     (case ruby_update env self url w of
        (Inl err, self1, w1) \<Rightarrow> (Some err, self1, w1)
      | (Inr p, self1, w1) \<Rightarrow>
          (case content_at w1 p of
             None \<Rightarrow> (Some (ENOENT p), self1, emit (ReadFile p) w1)
           | Some data \<Rightarrow>
               (case File_write to data (emit (ReadFile p) w1) of
                  (r, w2) \<Rightarrow> (r, self1, w2))))"

text \<open>\<^verbatim>\<open>load_credentials\<close> and \<^verbatim>\<open>initialize\<close> (the \<^verbatim>\<open>mkdir_p\<close> of the cache root aside).\<close>

definition load_credentials ::
  "ruby_env \<Rightarrow> fast_gcs \<Rightarrow> world \<Rightarrow> ruby_error option \<times> fast_gcs \<times> world" where
  "load_credentials env self w =
     (let p = CREDENTIALS_DB env; w1 = emit (ReadFile p) w
      in (case content_at w p of
            None \<Rightarrow> (Some (ENOENT p), self, w1)
          | Some db \<Rightarrow>
              (case scan_credentials env db of
                 None \<Rightarrow> (Some ParseError, self, w1)
               | Some (cid, secret, refresh) \<Rightarrow>
                   (None,
                    self\<lparr>at_client_id := cid, at_client_secret := secret, at_refresh_token := refresh\<rparr>,
                    w1))))"

definition initialize :: "ruby_env \<Rightarrow> world \<Rightarrow> ruby_error option \<times> fast_gcs \<times> world" where
  "initialize env w =
     (case load_credentials env
             \<lparr>at_token = None, at_expiry = None, at_client_id = [], at_client_secret = [],
              at_refresh_token = []\<rparr> w of
        (Some err, self1, w1) \<Rightarrow> (Some err, self1, w1)
      | (None, self1, w1) \<Rightarrow> ensure_current_token env self1 w1)"

section \<open>Reading a trace\<close>

text \<open>
  The events that go over the network: the requests to the storage and to the token
  endpoint.
\<close>

fun is_network :: "event \<Rightarrow> bool" where
  "is_network (Get req) = True"
| "is_network (Post url body) = True"
| "is_network e = False"


section \<open>What a well-formed reference is\<close>

text \<open>
  The form the pattern \<^verbatim>\<open>^gs://([^/]+)/(.*)$\<close> describes, written out: the scheme, a
  bucket that is not empty and has no slash, a slash, and a key on one line.
\<close>

definition well_formed :: "string \<Rightarrow> string \<Rightarrow> string \<Rightarrow> bool" where
  "well_formed s b k =
     (s = ''gs://'' @ b @ ''/'' @ k \<and> b \<noteq> [] \<and> slash \<notin> set b \<and> newline \<notin> set k)"

section \<open>Example inputs\<close>

text \<open>
  Concrete worlds and environments for evaluating the code: a file system given by a
  list of paths and contents (mode 0644, umask 022, every open allowed), an endpoint
  that answers every request alike, and an endpoint that honours \<^verbatim>\<open>If-None-Match\<close>
  for an object with a fixed body and ETag.
\<close>

definition ex_world :: "(path \<times> bytes) list \<Rightarrow> world" where
  "ex_world fs =
     \<lparr>files = map_of (map (\<lambda>(p, c). (p, \<lparr>perm = perm_0644, content = c\<rparr>)) fs),
      umask = 0x12, denied = (\<lambda>p. False), trace = []\<rparr>"

definition reply :: "nat \<Rightarrow> bytes list \<Rightarrow> request \<Rightarrow> response option" where
  "reply st cs req = Some \<lparr>status = st, chunks = cs, body_ok = True, etag = Some ''v1''\<rparr>"

definition etag_server :: "bytes \<Rightarrow> string \<Rightarrow> request \<Rightarrow> response option" where
  "etag_server body tag req =
     (if if_none_match req = Some tag
      then Some \<lparr>status = 304, chunks = [], body_ok = True, etag = Some tag\<rparr>
      else Some \<lparr>status = 200, chunks = [body], body_ok = True, etag = Some tag\<rparr>)"

text \<open>
  The Go environment: the decoder knows one record, \<open>''T 5''\<close>, a token \<open>T\<close> that
  expires at time 5.
\<close>

definition ex_go_env :: "int \<Rightarrow> (request \<Rightarrow> response option) \<Rightarrow> go_env" where
  "ex_go_env now srv =
     \<lparr>time_Now = now,
      json_Unmarshal = (\<lambda>data. if data = ''T 5'' then Some \<lparr>Token = ''T'', Expiry = 5\<rparr> else None),
      http_NewRequest = (\<lambda>u. True),
      client_Do = srv,
      os_UserHomeDir = Some ''/home/u''\<rparr>"

definition ex_f :: "token option \<Rightarrow> fastGCS" where
  "ex_f t = \<lparr>cacheRoot = ''/c'', gcloudConfigDir = ''/g'', token = t\<rparr>"

text \<open>
  The Ruby environment: home \<open>/h\<close>, temporary directory \<open>/tmp/d\<close>, a cache-record
  decoder that knows \<open>''T 5''\<close> (expires at 5) and \<open>''U 500''\<close> (expires at 500), gcloud
  databases without a match, a token endpoint that grants \<open>N\<close> for 3600 seconds, a
  \<^verbatim>\<open>File\<close> that keeps all it is given in its buffer until it is closed (the bodies
  here are far below the size of the buffer), and a \<^verbatim>\<open>FileUtils.mv\<close> that renames.
\<close>

definition ex_ruby_env :: "int \<Rightarrow> (request \<Rightarrow> response option) \<Rightarrow> ruby_env" where
  "ex_ruby_env now srv =
     \<lparr>Time_now = now,
      home = ''/h'',
      mktmpdir = ''/tmp/d'',
      storage = srv,
      token_endpoint = (\<lambda>body. Some (200, ''N 3600'')),
      parse_cache_record =
        (\<lambda>data. if data = ''T 5'' then Some (''T'', 5)
                 else if data = ''U 500'' then Some (''U'', 500) else None),
      scan_access_tokens = (\<lambda>db. []),
      Time_parse = (\<lambda>stamp. None),
      scan_credentials = (\<lambda>db. None),
      parse_refresh =
        (\<lambda>answer. if answer = ''N 3600'' then Some (Some ''N'', Some 3600) else None),
      cache_record_json = (\<lambda>tok expiry. ''record of '' @ (case tok of None \<Rightarrow> [] | Some t \<Rightarrow> t)),
      refresh_request_json = (\<lambda>cid secret refresh. ''grant '' @ refresh),
      io_flushed = (\<lambda>data. 0),
      File_rename = (\<lambda>src dst. Renamed)\<rparr>"

definition ex_self :: "string option \<Rightarrow> int option \<Rightarrow> fast_gcs" where
  "ex_self tok expiry =
     \<lparr>at_token = tok, at_expiry = expiry, at_client_id = ''id'', at_client_secret = ''secret'',
      at_refresh_token = ''r''\<rparr>"

section \<open>Properties of the reference parser\<close>

lemma take5_D: "take 5 s = ''gs://'' \<Longrightarrow> s = ''gs://'' @ drop 5 s"
  by (metis append_take_drop_id)

lemma run_split:
  "slash \<notin> set b \<Longrightarrow>
   takeWhile (\<lambda>c. c \<noteq> slash) (b @ slash # k) = b \<and>
   dropWhile (\<lambda>c. c \<noteq> slash) (b @ slash # k) = slash # k"
  by (induction b) auto

lemma gsURLRegexp_complete:
  "b \<noteq> [] \<Longrightarrow> slash \<notin> set b \<Longrightarrow> newline \<notin> set k \<Longrightarrow>
   gsURLRegexp (''gs://'' @ b @ ''/'' @ k) = Some (b, k)"
  unfolding gsURLRegexp_def using run_split[of b k]
  by (simp add: Let_def)

lemma gsURLRegexp_sound:
  assumes "gsURLRegexp s = Some (b, k)"
  shows "s = ''gs://'' @ b @ ''/'' @ k \<and> b \<noteq> [] \<and> slash \<notin> set b \<and> newline \<notin> set k"
proof -
  let ?rest = "drop 5 s"
  let ?after = "dropWhile (\<lambda>c. c \<noteq> slash) ?rest"
  from assms have p: "take 5 s = ''gs://''"
    unfolding gsURLRegexp_def by (simp split: if_splits)
  from assms p have b: "b = takeWhile (\<lambda>c. c \<noteq> slash) ?rest" and ne: "b \<noteq> []"
    and a: "?after \<noteq> []" and k: "k = tl ?after" and nl: "newline \<notin> set k"
    unfolding gsURLRegexp_def by (auto simp: Let_def split: if_splits)
  from a have "hd ?after = slash"
    using hd_dropWhile[of "\<lambda>c. c \<noteq> slash" ?rest] by auto
  with a k have "?after = slash # k" by (cases ?after) auto
  then have "?rest = b @ slash # k"
    using b takeWhile_dropWhile_id[of "\<lambda>c. c \<noteq> slash" ?rest] by simp
  moreover have "slash \<notin> set b" using b by (auto dest: set_takeWhileD)
  ultimately show ?thesis using take5_D[OF p] ne nl by simp
qed

lemma gsURLRegexp_iff: "gsURLRegexp s = Some (b, k) \<longleftrightarrow> well_formed s b k"
  unfolding well_formed_def
  using gsURLRegexp_sound[of s b k] gsURLRegexp_complete[of b k] by blast

lemma parseGSURL_Inr_iff: "parseGSURL s = Inr (b, k) \<longleftrightarrow> well_formed s b k"
  unfolding parseGSURL_def using gsURLRegexp_iff[of s b k]
  by (auto split: option.splits)

lemma parseGSURL_Inl_iff:
  "parseGSURL s = Inl (InvalidGCSURL s) \<longleftrightarrow> (\<nexists>b k. well_formed s b k)"
proof (cases "gsURLRegexp s")
  case None
  then have "\<nexists>b k. well_formed s b k" using gsURLRegexp_iff[of s] by auto
  with None show ?thesis by (simp add: parseGSURL_def)
next
  case (Some r)
  obtain b k where r: "r = (b, k)" by (cases r)
  with Some have "well_formed s b k" using gsURLRegexp_iff[of s b k] by simp
  with Some r show ?thesis by (auto simp: parseGSURL_def)
qed

lemma gs_match_at_line:
  "b \<noteq> [] \<Longrightarrow> slash \<notin> set b \<Longrightarrow> newline \<notin> set k \<Longrightarrow>
   gs_match_at (''gs://'' @ b @ ''/'' @ k) = Some (b, k)"
proof -
  assume a: "b \<noteq> []" "slash \<notin> set b" "newline \<notin> set k"
  from a(3) have "takeWhile (\<lambda>c. c \<noteq> newline) k = k" by (induction k) auto
  then show ?thesis unfolding gs_match_at_def using run_split[of b k] a by (simp add: Let_def)
qed

lemma parse_gs_url_complete: "well_formed s b k \<Longrightarrow> parse_gs_url s = Inr (b, k)"
  unfolding well_formed_def parse_gs_url_def using gs_match_at_line[of b k] by auto

lemma gs_match_at_bucket:
  assumes "gs_match_at s = Some (b, k)"
  shows "b \<noteq> [] \<and> slash \<notin> set b"
proof -
  from assms have "b = takeWhile (\<lambda>c. c \<noteq> slash) (drop 5 s)" and "b \<noteq> []"
    unfolding gs_match_at_def by (auto simp: Let_def split: if_splits)
  then show ?thesis by (auto dest: set_takeWhileD)
qed

lemma first_match_bucket: "first_match ss = Some (b, k) \<Longrightarrow> b \<noteq> [] \<and> slash \<notin> set b"
proof (induction ss)
  case Nil
  then show ?case by simp
next
  case (Cons s ss)
  then show ?case using gs_match_at_bucket[of s b k]
    by (cases "gs_match_at s") auto
qed

lemma parse_gs_url_bucket: "parse_gs_url u = Inr (b, k) \<Longrightarrow> b \<noteq> [] \<and> slash \<notin> set b"
  unfolding parse_gs_url_def using first_match_bucket[of "u # line_starts u" b k]
  by (auto split: option.splits)

text \<open>
  C3, as stated, fails: a key may not be any string. A key with a line feed is of the
  form \<^verbatim>\<open>gs://B/K\<close>, yet the Go parser rejects the reference (\<^verbatim>\<open>.\<close> does not match a
  line feed and \<^verbatim>\<open>$\<close> is the end of the text), and the Ruby parser returns the key cut
  at the line feed (\<^verbatim>\<open>$\<close> is the end of the line).
\<close>

theorem parse_newline_key_counterexample:
  "parseGSURL (''gs://b/x'' @ [newline] @ ''y'')
     = Inl (InvalidGCSURL (''gs://b/x'' @ [newline] @ ''y''))
   \<and> parse_gs_url (''gs://b/x'' @ [newline] @ ''y'') = Inr (''b'', ''x'')"
  by (simp add: parseGSURL_def gsURLRegexp_def parse_gs_url_def gs_match_at_def)

text \<open>
  The Ruby \<^verbatim>\<open>match\<close> searches line by line (\<^verbatim>\<open>^\<close> and \<^verbatim>\<open>$\<close> where \<^verbatim>\<open>\A\<close> and
  \<^verbatim>\<open>\z\<close> were meant), so a reference on a later line of a longer string is accepted;
  the Go parser rejects the same string.
\<close>

lemma parse_gs_url_searches_lines:
  "parse_gs_url (''x'' @ [newline] @ ''gs://b/k'') = Inr (''b'', ''k'')
   \<and> parseGSURL (''x'' @ [newline] @ ''gs://b/k'')
       = Inl (InvalidGCSURL (''x'' @ [newline] @ ''gs://b/k''))"
  by (simp add: parse_gs_url_def gs_match_at_def parseGSURL_def gsURLRegexp_def)

text \<open>
  On a string without a line feed there is one line to search and \<^verbatim>\<open>$\<close> is the end
  of the string: the Ruby parser does there what the Go parser does.
\<close>

lemma line_starts_single: "newline \<notin> set s \<Longrightarrow> line_starts s = []"
  by (induction s) auto

lemma gs_match_at_single_line:
  assumes "newline \<notin> set s"
  shows "gs_match_at s = gsURLRegexp s"
proof -
  let ?after = "dropWhile (\<lambda>c. c \<noteq> slash) (drop 5 s)"
  have nl: "newline \<notin> set (tl ?after)"
  proof
    assume "newline \<in> set (tl ?after)"
    then have "newline \<in> set ?after" by (cases ?after) auto
    then have "newline \<in> set (drop 5 s)" by (rule set_dropWhileD)
    then have "newline \<in> set s" by (rule in_set_dropD)
    with assms show False by simp
  qed
  then have tw: "takeWhile (\<lambda>c. c \<noteq> newline) (tl ?after) = tl ?after"
    by (auto simp: takeWhile_eq_all_conv)
  have "gs_match_at s =
          (if take 5 s = ''gs://''
           then (if takeWhile (\<lambda>c. c \<noteq> slash) (drop 5 s) = [] \<or> ?after = [] then None
                 else Some (takeWhile (\<lambda>c. c \<noteq> slash) (drop 5 s), tl ?after))
           else None)"
    unfolding gs_match_at_def Let_def tw ..
  also have "\<dots> = gsURLRegexp s"
    unfolding gsURLRegexp_def Let_def using nl by (simp only: if_False)
  finally show ?thesis .
qed

lemma parse_gs_url_single_line:
  assumes "newline \<notin> set s"
  shows "parse_gs_url s = (case gsURLRegexp s of
                             None \<Rightarrow> Inl ArgumentError
                           | Some (bucket, object) \<Rightarrow> Inr (bucket, object))"
  using assms
  by (simp add: parse_gs_url_def line_starts_single gs_match_at_single_line
      split: option.splits)

lemma parse_gs_url_single_line_Inr_iff:
  "newline \<notin> set s \<Longrightarrow> parse_gs_url s = Inr (b, k) \<longleftrightarrow> well_formed s b k"
  using gsURLRegexp_iff[of s b k]
  by (auto simp: parse_gs_url_single_line split: option.splits)

lemma parse_gs_url_single_line_Inl_iff:
  assumes "newline \<notin> set s"
  shows "parse_gs_url s = Inl ArgumentError \<longleftrightarrow> (\<nexists>b k. well_formed s b k)"
proof (cases "gsURLRegexp s")
  case None
  then have "\<nexists>b k. well_formed s b k" using gsURLRegexp_iff[of s] by auto
  with None assms show ?thesis by (simp add: parse_gs_url_single_line)
next
  case (Some r)
  obtain b k where r: "r = (b, k)" by (cases r)
  with Some have "well_formed s b k" using gsURLRegexp_iff[of s b k] by simp
  with Some r assms show ?thesis by (auto simp: parse_gs_url_single_line)
qed

text \<open>
  C3, amended: for every string \<^verbatim>\<open>gs://B/K\<close> with B not empty and free of slashes and
  K free of line feeds (\<open>well_formed\<close>), both parsers return exactly (B, K). The Go
  parser returns (B, K) for no other string, and fails with the invalid-reference
  error, carrying no bucket and no key, exactly on the strings that are not of that
  form. The Ruby parser does the same on every string without a line feed: it returns
  (B, K) exactly for the strings of that form and raises its invalid-reference error
  exactly for the others. (What the Ruby parser does with a string of several lines
  that is not of that form is not part of the statement.)
\<close>

theorem parse_reference_exact:
  "(parseGSURL s = Inr (b, k) \<longleftrightarrow> well_formed s b k)
   \<and> (parseGSURL s = Inl (InvalidGCSURL s) \<longleftrightarrow> (\<nexists>b k. well_formed s b k))
   \<and> (well_formed s b k \<longrightarrow> parse_gs_url s = Inr (b, k))
   \<and> (newline \<notin> set s \<longrightarrow>
         (parse_gs_url s = Inr (b, k) \<longleftrightarrow> well_formed s b k)
         \<and> (parse_gs_url s = Inl ArgumentError \<longleftrightarrow> (\<nexists>b k. well_formed s b k)))"
  using parseGSURL_Inr_iff[of s b k] parseGSURL_Inl_iff[of s] parse_gs_url_complete[of s b k]
    parse_gs_url_single_line_Inr_iff[of s b k] parse_gs_url_single_line_Inl_iff[of s]
  by blast

theorem parse_reference_exact_witness:
  "well_formed ''gs://my-bucket/path/to/object.json'' ''my-bucket'' ''path/to/object.json''
   \<and> parseGSURL ''gs://my-bucket/path/to/object.json''
       = Inr (''my-bucket'', ''path/to/object.json'')
   \<and> parse_gs_url ''gs://my-bucket/path/to/object.json''
       = Inr (''my-bucket'', ''path/to/object.json'')
   \<and> (\<nexists>b k. well_formed ''http://my-bucket/k'' b k)
   \<and> parseGSURL ''http://my-bucket/k'' = Inl (InvalidGCSURL ''http://my-bucket/k'')
   \<and> newline \<notin> set ''http://my-bucket/k''
   \<and> parse_gs_url ''http://my-bucket/k'' = Inl ArgumentError"
proof -
  have wf: "well_formed ''gs://my-bucket/path/to/object.json'' ''my-bucket'' ''path/to/object.json''"
    by (simp add: well_formed_def)
  have nwf: "\<nexists>b k. well_formed ''http://my-bucket/k'' b k"
    by (simp add: well_formed_def)
  have nl: "newline \<notin> set ''http://my-bucket/k''" by simp
  show ?thesis
    using wf nwf nl
      parse_reference_exact[of "''gs://my-bucket/path/to/object.json''" "''my-bucket''"
        "''path/to/object.json''"]
      parse_reference_exact[of "''http://my-bucket/k''"]
    by blast
qed

section \<open>Properties of the cache path\<close>

lemma split_on_nonempty: "split_on d s \<noteq> []"
  by (induction s) (auto split: list.splits)

lemma split_on_append: "split_on d (a @ d # b) = split_on d a @ split_on d b"
proof (induction a)
  case Nil
  then show ?case by simp
next
  case (Cons c a)
  then show ?case using split_on_nonempty[of d a]
    by (cases "split_on d a") auto
qed

lemma split_on_plain: "d \<notin> set s \<Longrightarrow> split_on d s = [s]"
  by (induction s) auto

lemma last_split_on: "d \<notin> set nm \<Longrightarrow> last (split_on d (x @ d # nm)) = nm"
  by (simp add: split_on_append split_on_plain)

lemma join_with_snoc:
  "join_with sep (acc @ [e]) = (if acc = [] then e else join_with sep acc @ sep @ e)"
  by (induction sep acc rule: join_with.induct) auto

lemma clean_step_plain:
  "e \<noteq> [] \<Longrightarrow> e \<noteq> ''.'' \<Longrightarrow> e \<noteq> ''..'' \<Longrightarrow> clean_step r acc e = acc @ [e]"
  by (simp add: clean_step_def)

lemma clean_fold:
  assumes "slash \<notin> set nm" "nm \<noteq> []" "nm \<noteq> ''.''" "nm \<noteq> ''..''"
  shows "foldl (clean_step r) [] (split_on slash (x @ slash # nm)) =
         foldl (clean_step r) [] (split_on slash x) @ [nm]"
  using assms by (simp add: split_on_append split_on_plain clean_step_plain)

lemma final_component_out:
  assumes "slash \<notin> set nm" "nm \<noteq> []"
  shows "final_component (join_with ''/'' (acc @ [nm])) = nm"
    and "final_component (''/'' @ join_with ''/'' (acc @ [nm])) = nm"
    and "join_with ''/'' (acc @ [nm]) \<noteq> []"
proof -
  show "join_with ''/'' (acc @ [nm]) \<noteq> []" using assms by (simp add: join_with_snoc)
  show "final_component (join_with ''/'' (acc @ [nm])) = nm"
    using assms last_split_on[of slash nm "join_with ''/'' acc"]
    by (simp add: join_with_snoc final_component_def split_on_plain)
  show "final_component (''/'' @ join_with ''/'' (acc @ [nm])) = nm"
    using assms last_split_on[of slash nm "slash # join_with ''/'' acc"]
      last_split_on[of slash nm "[]"]
    by (simp add: join_with_snoc final_component_def split_on_nonempty)
qed

text \<open>\<^verbatim>\<open>Clean\<close> and \<^verbatim>\<open>Join\<close> on the cases Go's documentation and tests list.\<close>

lemma Clean_examples:
  "Clean ''abc/def/ghi/../jkl'' = ''abc/def/jkl''
   \<and> Clean ''/abc/def/../../..'' = ''/''
   \<and> Clean ''abc/./../def'' = ''def''
   \<and> Clean ''abc//./../def'' = ''def''
   \<and> Clean ''abc/../../././../def'' = ''../../def''
   \<and> Clean ''//abc'' = ''/abc''
   \<and> Clean [] = ''.''
   \<and> Clean ''../..'' = ''../..''
   \<and> Clean ''abc/'' = ''abc''
   \<and> Clean ''/../abc'' = ''/abc''
   \<and> Join [''a'', ''b'', ''c''] = ''a/b/c''
   \<and> Join [''a'', []] = ''a''
   \<and> Join [[], []] = []
   \<and> Join [[], ''a''] = ''a''
   \<and> Join [''/home/u'', ''.cache'', ''fastgcs''] = ''/home/u/.cache/fastgcs''"
  by code_simp

lemma final_component_Clean:
  assumes "slash \<notin> set nm" "nm \<noteq> []" "nm \<noteq> ''.''" "nm \<noteq> ''..''"
  shows "final_component (Clean (x @ slash # nm)) = nm"
  unfolding Clean_def Let_def clean_fold[OF assms]
  using final_component_out[OF assms(1,2)] by simp

lemma final_component_Clean_plain:
  assumes "slash \<notin> set nm" "nm \<noteq> []" "nm \<noteq> ''.''" "nm \<noteq> ''..''"
  shows "final_component (Clean nm) = nm"
proof -
  from assms have "take 1 nm \<noteq> ''/''" by (cases nm) auto
  then show ?thesis using assms
    by (simp add: Clean_def Let_def split_on_plain clean_step_plain final_component_def)
qed

lemma final_component_Join:
  assumes "slash \<notin> set nm" "nm \<noteq> []" "nm \<noteq> ''.''" "nm \<noteq> ''..''"
  shows "final_component (Join [root, nm]) = nm"
proof (cases "root = []")
  case True
  then show ?thesis using assms by (simp add: Join_def final_component_Clean_plain)
next
  case False
  then have "Join [root, nm] = Clean (root @ slash # nm)" by (simp add: Join_def)
  then show ?thesis using assms by (simp add: final_component_Clean)
qed

lemma final_component_File_join:
  assumes "slash \<notin> set nm"
  shows "final_component (File_join a nm) = nm"
proof -
  from assms have "dropWhile (\<lambda>c. c = slash) nm = nm" by (cases nm) auto
  then show ?thesis
    using assms last_split_on[of slash nm "rev (dropWhile (\<lambda>c. c = slash) (rev a))"]
    by (simp add: File_join_def final_component_def)
qed

lemma long_not_dots: "3 \<le> length s \<Longrightarrow> s \<noteq> ''.'' \<and> s \<noteq> ''..''"
  by auto

lemma slash_flatten_key: "slash \<notin> set (flatten_key k)"
  by (auto simp: flatten_key_def)

lemma flat_name_ok:
  assumes "b \<noteq> []" "slash \<notin> set b"
  shows "slash \<notin> set (b @ ''--'' @ flatten_key k)" "b @ ''--'' @ flatten_key k \<noteq> []"
        "b @ ''--'' @ flatten_key k \<noteq> ''.''" "b @ ''--'' @ flatten_key k \<noteq> ''..''"
proof -
  show "slash \<notin> set (b @ ''--'' @ flatten_key k)" using assms slash_flatten_key[of k] by simp
  show "b @ ''--'' @ flatten_key k \<noteq> []" using assms by simp
  have "length (b @ ''--'' @ flatten_key k) \<ge> 3" using assms by (cases b) auto
  then show "b @ ''--'' @ flatten_key k \<noteq> ''.''" "b @ ''--'' @ flatten_key k \<noteq> ''..''"
    using long_not_dots by blast+
qed

lemma cachePath_parsed:
  "parseGSURL u = Inr (b, k) \<Longrightarrow>
   cachePath f u = Inr (Join [cacheRoot f, b @ ''--'' @ flatten_key k])"
  by (simp add: cachePath_def)

lemma cache_path_parsed:
  "parse_gs_url u = Inr (b, k) \<Longrightarrow>
   cache_path env u = Inr (File_join (CACHE env) (b @ ''--'' @ flatten_key k))"
  by (simp add: cache_path_def)

text \<open>
  C7: the cache path is a function of the cache root and of the parsed (bucket, key)
  alone: nothing else of the receiver (Go) or of the environment (Ruby) enters it. Its
  final component is the bucket, two dashes, and the key with every slash turned into a
  dash (\<open>flatten_key\<close> maps over the key: no slash is left and no character is added
  or dropped).
\<close>

theorem cachePath_flat_name:
  "(parseGSURL u = Inr (b, k) \<longrightarrow>
      cachePath f u = Inr (Join [cacheRoot f, b @ ''--'' @ flatten_key k])
      \<and> final_component (Join [cacheRoot f, b @ ''--'' @ flatten_key k])
          = b @ ''--'' @ flatten_key k)
   \<and> (parse_gs_url u = Inr (b, k) \<longrightarrow>
      cache_path env u = Inr (File_join (CACHE env) (b @ ''--'' @ flatten_key k))
      \<and> final_component (File_join (CACHE env) (b @ ''--'' @ flatten_key k))
          = b @ ''--'' @ flatten_key k)
   \<and> (cacheRoot f = cacheRoot g \<longrightarrow> cachePath g u = cachePath f u)
   \<and> (home env = home env' \<longrightarrow> cache_path env' u = cache_path env u)
   \<and> flatten_key k = map (\<lambda>c. if c = slash then CHR ''-'' else c) k
   \<and> slash \<notin> set (flatten_key k)"
proof -
  have go: "final_component (Join [cacheRoot f, b @ ''--'' @ flatten_key k])
              = b @ ''--'' @ flatten_key k"
    if "parseGSURL u = Inr (b, k)"
  proof -
    from that have "b \<noteq> []" "slash \<notin> set b"
      using parseGSURL_Inr_iff[of u b k] by (simp_all add: well_formed_def)
    then show ?thesis using flat_name_ok[of b k] final_component_Join by blast
  qed
  have rb: "final_component (File_join (CACHE env) (b @ ''--'' @ flatten_key k))
              = b @ ''--'' @ flatten_key k"
    if "parse_gs_url u = Inr (b, k)"
  proof -
    from that have "b \<noteq> []" "slash \<notin> set b" using parse_gs_url_bucket[of u b k] by simp_all
    then show ?thesis using flat_name_ok(1)[of b k] final_component_File_join by blast
  qed
  have d1: "cachePath g u = cachePath f u" if "cacheRoot f = cacheRoot g"
    using that by (cases "parseGSURL u") (auto simp: cachePath_def)
  have d2: "cache_path env' u = cache_path env u" if "home env = home env'"
    using that by (cases "parse_gs_url u") (auto simp: cache_path_def CACHE_def)
  show ?thesis
    using go rb d1 d2 cachePath_parsed[of u b k f] cache_path_parsed[of u b k env]
      slash_flatten_key[of k]
    by (simp add: flatten_key_def)
qed

theorem cachePath_flat_name_witness:
  "parseGSURL ''gs://my-bucket/path/to/object.json''
     = Inr (''my-bucket'', ''path/to/object.json'')
   \<and> parse_gs_url ''gs://my-bucket/path/to/object.json''
     = Inr (''my-bucket'', ''path/to/object.json'')
   \<and> cachePath (ex_f None) ''gs://my-bucket/path/to/object.json''
     = Inr ''/c/my-bucket--path-to-object.json''
   \<and> final_component ''/c/my-bucket--path-to-object.json'' = ''my-bucket--path-to-object.json''
   \<and> cache_path (ex_ruby_env 0 (reply 200 [])) ''gs://my-bucket/path/to/object.json''
     = Inr ''/h/.cache/fastgcs/my-bucket--path-to-object.json''
   \<and> final_component ''/h/.cache/fastgcs/my-bucket--path-to-object.json''
     = ''my-bucket--path-to-object.json''
   \<and> cacheRoot (ex_f None) = cacheRoot (ex_f (Some \<lparr>Token = ''T'', Expiry = 5\<rparr>))
   \<and> cachePath (ex_f (Some \<lparr>Token = ''T'', Expiry = 5\<rparr>)) ''gs://my-bucket/path/to/object.json''
     = Inr ''/c/my-bucket--path-to-object.json''"
proof -
  let ?u = "''gs://my-bucket/path/to/object.json''"
  let ?b = "''my-bucket''"
  let ?k = "''path/to/object.json''"
  let ?g = "ex_f (Some \<lparr>Token = ''T'', Expiry = 5\<rparr>)"
  let ?env = "ex_ruby_env 0 (reply 200 [])"
  note T = cachePath_flat_name[of ?u ?b ?k "ex_f None" ?env ?g ?env]
  have p1: "parseGSURL ?u = Inr (?b, ?k)"
    by (simp add: parseGSURL_def gsURLRegexp_def)
  have p2: "parse_gs_url ?u = Inr (?b, ?k)"
    by (simp add: parse_gs_url_def gs_match_at_def)
  have r: "cacheRoot (ex_f None) = cacheRoot ?g"
    by (simp add: ex_f_def)
  have j1: "Join [cacheRoot (ex_f None), ?b @ ''--'' @ flatten_key ?k]
              = ''/c/my-bucket--path-to-object.json''"
    by (simp add: ex_f_def Join_def Clean_def clean_step_def flatten_key_def)
  have j2: "File_join (CACHE ?env) (?b @ ''--'' @ flatten_key ?k)
              = ''/h/.cache/fastgcs/my-bucket--path-to-object.json''"
    by (simp add: File_join_def CACHE_def ex_ruby_env_def flatten_key_def)
  have n: "?b @ ''--'' @ flatten_key ?k = ''my-bucket--path-to-object.json''"
    by (simp add: flatten_key_def)
  from T p1 have c1: "cachePath (ex_f None) ?u = Inr (Join [cacheRoot (ex_f None), ?b @ ''--'' @ flatten_key ?k])"
    and f1: "final_component (Join [cacheRoot (ex_f None), ?b @ ''--'' @ flatten_key ?k])
               = ?b @ ''--'' @ flatten_key ?k"
    by blast+
  from T p2 have c2: "cache_path ?env ?u = Inr (File_join (CACHE ?env) (?b @ ''--'' @ flatten_key ?k))"
    and f2: "final_component (File_join (CACHE ?env) (?b @ ''--'' @ flatten_key ?k))
               = ?b @ ''--'' @ flatten_key ?k"
    by blast+
  from T r have c3: "cachePath ?g ?u = cachePath (ex_f None) ?u" by blast
  have g1: "final_component ''/c/my-bucket--path-to-object.json''
              = ''my-bucket--path-to-object.json''"
    using f1 unfolding j1 unfolding n .
  have g2: "final_component ''/h/.cache/fastgcs/my-bucket--path-to-object.json''
              = ''my-bucket--path-to-object.json''"
    using f2 unfolding j2 unfolding n .
  show ?thesis
    unfolding c3
    using p1 p2 r c1[unfolded j1] g1 c2[unfolded j2] g2
    by (intro conjI)
qed

section \<open>Properties of the file operations\<close>

lemma files_emit [simp]: "files (emit e w) = files w"
  by (simp add: emit_def)

lemma denied_emit [simp]: "denied (emit e w) = denied w"
  by (simp add: emit_def)

lemma umask_emit [simp]: "umask (emit e w) = umask w"
  by (simp add: emit_def)

lemma content_at_emit [simp]: "content_at (emit e w) p = content_at w p"
  by (simp add: content_at_def)

lemma denied_write_file [simp]: "denied (write_file p off data w) = denied w"
  by (simp add: write_file_def Let_def split: option.splits)

lemma denied_write_chunks [simp]: "denied (write_chunks p off cs w) = denied w"
  by (induction cs arbitrary: off w) auto

lemma content_at_write_file:
  "files w p = Some fl \<Longrightarrow>
   content_at (write_file p off data w) q =
     (if q = p then Some (write_at (content fl) off data) else content_at w q)"
  by (simp add: write_file_def content_at_def Let_def)

lemma write_at_chain:
  assumes "off \<le> length old"
  shows "write_at (write_at old off c) (off + length c) d = write_at old off (c @ d)"
  using assms by (simp add: write_at_def min_def drop_take add.commute add.left_commute)

lemma write_chunks_content:
  "files w p = Some fl \<Longrightarrow> off \<le> length (content fl) \<Longrightarrow>
   content_at (write_chunks p off cs w) q =
     (if q = p then Some (write_at (content fl) off (concat cs)) else content_at w q)"
proof (induction cs arbitrary: w fl off)
  case Nil
  then show ?case by (simp add: content_at_def write_at_def)
next
  case (Cons c cs)
  let ?w1 = "write_file p off c w"
  let ?fl1 = "fl\<lparr>content := write_at (content fl) off c\<rparr>"
  have f1: "files ?w1 p = Some ?fl1" using Cons.prems by (simp add: write_file_def Let_def)
  have l1: "off + length c \<le> length (content ?fl1)" using Cons.prems by (simp add: write_at_def)
  show ?case
    using Cons.IH[OF f1 l1] Cons.prems content_at_write_file[OF Cons.prems(1), of off c q]
    by (simp add: write_at_chain)
qed

lemma write_chunks_from_start:
  assumes "content_at w p = Some old"
  shows "content_at (write_chunks p 0 cs w) p = Some (concat cs @ drop (length (concat cs)) old)"
proof -
  from assms obtain fl where fl: "files w p = Some fl" and c: "content fl = old"
    by (auto simp: content_at_def)
  show ?thesis using write_chunks_content[OF fl, of 0 cs p] c by (simp add: write_at_def)
qed

section \<open>Properties of the Go fetch\<close>

lemma update_fetched:
  assumes "token f = Some tok" "cachePath f gsURL = Inr p" "apiFetchURL gsURL = Inr url"
    and "http_NewRequest env url" "client_Do env (bearer_request url tok) = Some res"
    and "content_at w p = Some old" "\<not> denied w p"
  shows "update env f gsURL w =
           (if body_ok res then Inr p else Inl CopyError,
            write_chunks p 0 (chunks res) (emit (Get (bearer_request url tok)) w))"
proof -
  from assms(6) obtain fl where fl: "files w p = Some fl" by (auto simp: content_at_def)
  then have "open_wronly_creat p perm_0644 (emit (Get (bearer_request url tok)) w)
               = Some (emit (Get (bearer_request url tok)) w)"
    using assms(7) by (simp add: open_wronly_creat_def)
  then show ?thesis
    using assms(1-5) by (simp add: update_def Let_def)
qed

lemma update_mixes:
  assumes "token f = Some tok" "cachePath f gsURL = Inr p" "apiFetchURL gsURL = Inr url"
    and "http_NewRequest env url" "client_Do env (bearer_request url tok) = Some res"
    and "body_ok res" "content_at w p = Some old" "\<not> denied w p"
  shows "fst (update env f gsURL w) = Inr p"
    and "content_at (snd (update env f gsURL w)) p
           = Some (concat (chunks res) @ drop (length (concat (chunks res))) old)"
    and "denied (snd (update env f gsURL w)) = denied w"
proof -
  note U = update_fetched[OF assms(1-5) assms(7,8)]
  show "fst (update env f gsURL w) = Inr p" using U assms(6) by simp
  show "content_at (snd (update env f gsURL w)) p
           = Some (concat (chunks res) @ drop (length (concat (chunks res))) old)"
    using U write_chunks_from_start[of "emit (Get (bearer_request url tok)) w" p old "chunks res"]
      assms(7) by simp
  show "denied (snd (update env f gsURL w)) = denied w" using U by simp
qed

lemma Read_after_update:
  assumes "fst (update env f gsURL w) = Inr p" "content_at (snd (update env f gsURL w)) p = Some c"
  shows "fst (Read env f gsURL w) = Inr c"
    and "content_at (snd (Read env f gsURL w)) q = content_at (snd (update env f gsURL w)) q"
    and "denied (snd (Read env f gsURL w)) = denied (snd (update env f gsURL w))"
  using assms by (auto simp: Read_def split: prod.splits sum.splits)

text \<open>
  C10: the Go \<^verbatim>\<open>update\<close> opens the cache file with \<^verbatim>\<open>O_WRONLY|O_CREATE\<close> and no
  \<^verbatim>\<open>O_TRUNC\<close>. When the cached content is longer than the downloaded body, the file ends
  up as the body followed by the old bytes beyond the body's length; \<^verbatim>\<open>Read\<close> returns
  these bytes, a later \<^verbatim>\<open>Read\<close> of the unchanged object returns them again, and they
  are not the downloaded object.
\<close>

theorem update_keeps_old_tail:
  assumes "token f = Some tok"
    and "cachePath f gsURL = Inr p"
    and "apiFetchURL gsURL = Inr url"
    and "http_NewRequest env url"
    and "client_Do env (bearer_request url tok) = Some res"
    and "body_ok res"
    and "content_at w p = Some old"
    and "\<not> denied w p"
    and "length (concat (chunks res)) < length old"
  shows "fst (update env f gsURL w) = Inr p
     \<and> content_at (snd (update env f gsURL w)) p
         = Some (concat (chunks res) @ drop (length (concat (chunks res))) old)
     \<and> fst (Read env f gsURL w)
         = Inr (concat (chunks res) @ drop (length (concat (chunks res))) old)
     \<and> fst (Read env f gsURL (snd (Read env f gsURL w)))
         = Inr (concat (chunks res) @ drop (length (concat (chunks res))) old)
     \<and> concat (chunks res) @ drop (length (concat (chunks res))) old \<noteq> concat (chunks res)"
proof -
  let ?body = "concat (chunks res)"
  let ?mixed = "?body @ drop (length ?body) old"
  let ?w1 = "snd (Read env f gsURL w)"
  note M = update_mixes[OF assms(1-8)]
  note R = Read_after_update[OF M(1) M(2)]
  have c1: "content_at ?w1 p = Some ?mixed" using R(2)[of p] M(2) by simp
  have d1: "\<not> denied ?w1 p" using R(3) M(3) assms(8) by simp
  note M2 = update_mixes[OF assms(1-6) c1 d1]
  have same: "?body @ drop (length ?body) ?mixed = ?mixed" by simp
  note R2 = Read_after_update[OF M2(1) M2(2)]
  have ne: "?mixed \<noteq> ?body" using assms(9) by simp
  show ?thesis using M(1) M(2) R(1) R2(1) same ne by simp
qed

theorem update_keeps_old_tail_witness:
  "fst (update (ex_go_env 10 (etag_server ''NEW'' ''v2'')) (ex_f (Some \<lparr>Token = ''T'', Expiry = 100\<rparr>))
          ''gs://b/k'' (ex_world [(''/c/b--k'', ''OLDCONTENT'')])) = Inr ''/c/b--k''
   \<and> content_at (snd (update (ex_go_env 10 (etag_server ''NEW'' ''v2''))
          (ex_f (Some \<lparr>Token = ''T'', Expiry = 100\<rparr>)) ''gs://b/k''
          (ex_world [(''/c/b--k'', ''OLDCONTENT'')]))) ''/c/b--k'' = Some ''NEWCONTENT''
   \<and> fst (Read (ex_go_env 10 (etag_server ''NEW'' ''v2'')) (ex_f (Some \<lparr>Token = ''T'', Expiry = 100\<rparr>))
          ''gs://b/k'' (ex_world [(''/c/b--k'', ''OLDCONTENT'')])) = Inr ''NEWCONTENT''
   \<and> ''NEWCONTENT'' \<noteq> ''NEW''"
proof -
  let ?env = "ex_go_env 10 (etag_server ''NEW'' ''v2'')"
  let ?tok = "\<lparr>Token = ''T'', Expiry = 100\<rparr>"
  let ?f = "ex_f (Some ?tok)"
  let ?w = "ex_world [(''/c/b--k'', ''OLDCONTENT'')]"
  let ?url = "''https://storage.googleapis.com/storage/v1/b/b/o/k?alt=media''"
  let ?res = "\<lparr>status = 200, chunks = [''NEW''], body_ok = True, etag = Some ''v2''\<rparr>"
  have h1: "token ?f = Some ?tok" by (simp add: ex_f_def)
  have h2: "cachePath ?f ''gs://b/k'' = Inr ''/c/b--k''"
    by (simp add: cachePath_def parseGSURL_def gsURLRegexp_def ex_f_def Join_def Clean_def
        clean_step_def flatten_key_def)
  have h3: "apiFetchURL ''gs://b/k'' = Inr ?url"
    by (simp add: apiFetchURL_def parseGSURL_def gsURLRegexp_def)
  have h4: "http_NewRequest ?env ?url" by (simp add: ex_go_env_def)
  have h5: "client_Do ?env (bearer_request ?url ?tok) = Some ?res"
    by (simp add: ex_go_env_def etag_server_def bearer_request_def)
  have h6: "body_ok ?res" by simp
  have h7: "content_at ?w ''/c/b--k'' = Some ''OLDCONTENT''"
    by (simp add: ex_world_def content_at_def)
  have h8: "\<not> denied ?w ''/c/b--k''" by (simp add: ex_world_def)
  have h9: "length (concat (chunks ?res)) < length ''OLDCONTENT''" by simp
  show ?thesis
    using update_keeps_old_tail[OF h1 h2 h3 h4 h5 h6 h7 h8 h9] by simp
qed

section \<open>The example inputs, evaluated\<close>

lemma ex_cachePath: "cachePath (ex_f t) ''gs://b/k'' = Inr ''/c/b--k''"
  by (simp add: cachePath_def parseGSURL_def gsURLRegexp_def ex_f_def Join_def Clean_def
      clean_step_def flatten_key_def)

lemma ex_apiFetchURL:
  "apiFetchURL ''gs://b/k'' = Inr ''https://storage.googleapis.com/storage/v1/b/b/o/k?alt=media''"
  by (simp add: apiFetchURL_def parseGSURL_def gsURLRegexp_def)

lemma ex_token: "token (ex_f t) = t"
  by (simp add: ex_f_def)

lemma ex_gcloudConfigDir: "gcloudConfigDir (ex_f t) = ''/g''"
  by (simp add: ex_f_def)

lemma ex_token_update: "(ex_f t)\<lparr>token := t'\<rparr> = ex_f t'"
  by (simp add: ex_f_def)

lemma ex_token_path: "Join [''/g'', credentialsCacheBasename] = ''/g/com.shopify.fastgcs.json''"
  by (simp add: credentialsCacheBasename_def Join_def Clean_def clean_step_def)

lemmas go_eval =
  update_def ex_cachePath ex_apiFetchURL ex_token ex_go_env_def reply_def etag_server_def ex_world_def
  open_wronly_creat_def emit_def write_file_def write_at_def content_at_def bearer_request_def
  Let_def

text \<open>
  C1 on the Go code. The cache holds \<open>cached object\<close> for \<^verbatim>\<open>gs://b/k\<close> and the endpoint
  answers 404 with the body \<open>Not Found\<close>. \<^verbatim>\<open>update\<close> never reads the status: it returns
  the cache path with no error, and the error body has been written over the start of
  the cached file.
\<close>

theorem go_update_ignores_status:
  "fst (update (ex_go_env 10 (reply 404 [''Not Found''])) (ex_f (Some \<lparr>Token = ''T'', Expiry = 100\<rparr>))
          ''gs://b/k'' (ex_world [(''/c/b--k'', ''cached object'')])) = Inr ''/c/b--k''
   \<and> content_at (ex_world [(''/c/b--k'', ''cached object'')]) ''/c/b--k'' = Some ''cached object''
   \<and> content_at (snd (update (ex_go_env 10 (reply 404 [''Not Found'']))
          (ex_f (Some \<lparr>Token = ''T'', Expiry = 100\<rparr>)) ''gs://b/k''
          (ex_world [(''/c/b--k'', ''cached object'')]))) ''/c/b--k'' = Some ''Not Foundject''"
  by (simp add: go_eval)

text \<open>
  C2 on the Go code. A 200 response streams \<open>AB\<close>, then \<open>CD\<close>, while the cache holds
  \<open>old!\<close>. The whole trace of \<^verbatim>\<open>update\<close> is the request and two writes to the cache
  path itself: no temporary file, no rename, and after the first write the cache path
  holds \<open>ABd!\<close>, the new content partially written.
\<close>

theorem go_update_writes_in_place:
  "trace (snd (update (ex_go_env 10 (reply 200 [''AB'', ''CD'']))
          (ex_f (Some \<lparr>Token = ''T'', Expiry = 100\<rparr>)) ''gs://b/k''
          (ex_world [(''/c/b--k'', ''old!'')])))
     = [Get (bearer_request ''https://storage.googleapis.com/storage/v1/b/b/o/k?alt=media''
               \<lparr>Token = ''T'', Expiry = 100\<rparr>),
        Write ''/c/b--k'' ''ABd!'',
        Write ''/c/b--k'' ''ABCD'']"
  by (simp add: go_eval)

lemma ex_New:
  "New (ex_go_env now srv)
     = Inr \<lparr>cacheRoot = ''/home/u/.cache/fastgcs'', gcloudConfigDir = ''/home/u/.config/gcloud'',
            token = None\<rparr>"
  by (simp add: New_def ex_go_env_def Join_def Clean_def clean_step_def)

lemma ex_main_paths:
  "Join [''/home/u/.config/gcloud'', credentialsCacheBasename]
     = ''/home/u/.config/gcloud/com.shopify.fastgcs.json''"
  "cachePath \<lparr>cacheRoot = ''/home/u/.cache/fastgcs'', gcloudConfigDir = g, token = t\<rparr>
       ''gs://neato/foobar'' = Inr ''/home/u/.cache/fastgcs/neato--foobar''"
  "apiFetchURL ''gs://neato/foobar''
     = Inr ''https://storage.googleapis.com/storage/v1/b/neato/o/foobar?alt=media''"
  by (simp_all add: credentialsCacheBasename_def Join_def Clean_def clean_step_def cachePath_def
      apiFetchURL_def parseGSURL_def gsURLRegexp_def flatten_key_def)

lemma ex_go_fields:
  "time_Now (ex_go_env now srv) = now"
  "http_NewRequest (ex_go_env now srv) u = True"
  "client_Do (ex_go_env now srv) = srv"
  by (simp_all add: ex_go_env_def)

text \<open>
  C4 on the Go code, with no token cache on disk. The program of \<^verbatim>\<open>main.go\<close>,
  \<^verbatim>\<open>New()\<close> and then \<^verbatim>\<open>Open("gs://neato/foobar")\<close>: \<^verbatim>\<open>ensureCurrentToken\<close> fails, but
  \<^verbatim>\<open>Open\<close> drops its error and goes on into \<^verbatim>\<open>update\<close>, which reaches
  \<^verbatim>\<open>f.token.Token\<close> with \<^verbatim>\<open>f.token == nil\<close>: a nil-pointer panic, not an error
  return. \<^verbatim>\<open>Read\<close> on a fresh receiver gets there at once, for it never resolves a
  token. Nor does \<^verbatim>\<open>Copy\<close>: with a token that expired at time 5, at time 100, it sends
  the GET with that token.
\<close>

theorem go_operations_without_token:
  "(case New (ex_go_env 100 (reply 200 [''x''])) of
      Inl err \<Rightarrow> Inl err
    | Inr fg \<Rightarrow> fst (Open (ex_go_env 100 (reply 200 [''x''])) fg ''gs://neato/foobar'' (ex_world [])))
     = Inl NilPointerDereference
   \<and> fst (ensureCurrentToken (ex_go_env 100 (reply 200 [''x''])) (ex_f None) (ex_world []))
     = Some NoAccessToken
   \<and> fst (Open (ex_go_env 100 (reply 200 [''x''])) (ex_f None) ''gs://b/k'' (ex_world []))
     = Inl NilPointerDereference
   \<and> fst (Read (ex_go_env 100 (reply 200 [''x''])) (ex_f None) ''gs://b/k'' (ex_world []))
     = Inl NilPointerDereference
   \<and> token_current (ex_go_env 100 (reply 200 [''x''])) (Some \<lparr>Token = ''T'', Expiry = 5\<rparr>) = False
   \<and> Copy (ex_go_env 100 (reply 200 [''x''])) (ex_f (Some \<lparr>Token = ''T'', Expiry = 5\<rparr>))
        ''gs://b/k'' ''/out'' (ex_world [])
     = (None,
        \<lparr>files = [''/c/b--k'' \<mapsto> \<lparr>perm = perm_0644, content = ''x''\<rparr>,
                  ''/out'' \<mapsto> \<lparr>perm = perm_0644, content = ''x''\<rparr>],
         umask = 0x12, denied = (\<lambda>p. False),
         trace = [Get (bearer_request ''https://storage.googleapis.com/storage/v1/b/b/o/k?alt=media''
                         \<lparr>Token = ''T'', Expiry = 5\<rparr>),
                  Create ''/c/b--k'' perm_0644, Write ''/c/b--k'' ''x'',
                  ReadFile ''/c/b--k'',
                  Create ''/out'' perm_0644, Write ''/out'' ''x'']\<rparr>)"
proof -
  have main: "(case New (ex_go_env 100 (reply 200 [''x''])) of
      Inl err \<Rightarrow> Inl err
    | Inr fg \<Rightarrow> fst (Open (ex_go_env 100 (reply 200 [''x''])) fg ''gs://neato/foobar'' (ex_world [])))
     = Inl NilPointerDereference"
    by (simp add: ex_New Open_def ensureCurrentToken_def token_current_def findTokenInCache_def
        ex_main_paths update_def ex_go_fields ex_world_def content_at_def emit_def Let_def)
  have rest: "fst (ensureCurrentToken (ex_go_env 100 (reply 200 [''x''])) (ex_f None) (ex_world []))
     = Some NoAccessToken
   \<and> fst (Open (ex_go_env 100 (reply 200 [''x''])) (ex_f None) ''gs://b/k'' (ex_world []))
     = Inl NilPointerDereference
   \<and> fst (Read (ex_go_env 100 (reply 200 [''x''])) (ex_f None) ''gs://b/k'' (ex_world []))
     = Inl NilPointerDereference
   \<and> token_current (ex_go_env 100 (reply 200 [''x''])) (Some \<lparr>Token = ''T'', Expiry = 5\<rparr>) = False
   \<and> Copy (ex_go_env 100 (reply 200 [''x''])) (ex_f (Some \<lparr>Token = ''T'', Expiry = 5\<rparr>))
        ''gs://b/k'' ''/out'' (ex_world [])
     = (None,
        \<lparr>files = [''/c/b--k'' \<mapsto> \<lparr>perm = perm_0644, content = ''x''\<rparr>,
                  ''/out'' \<mapsto> \<lparr>perm = perm_0644, content = ''x''\<rparr>],
         umask = 0x12, denied = (\<lambda>p. False),
         trace = [Get (bearer_request ''https://storage.googleapis.com/storage/v1/b/b/o/k?alt=media''
                         \<lparr>Token = ''T'', Expiry = 5\<rparr>),
                  Create ''/c/b--k'' perm_0644, Write ''/c/b--k'' ''x'',
                  ReadFile ''/c/b--k'',
                  Create ''/out'' perm_0644, Write ''/out'' ''x'']\<rparr>)"
    by (simp add: Read_def Open_def Copy_def copyFile_def ensureCurrentToken_def token_current_def
        findTokenInCache_def ex_gcloudConfigDir ex_token_path go_eval)
  from main rest show ?thesis by (intro conjI) simp_all
qed

text \<open>
  C6 on the Go code. The token cache holds a record that expired at time 5; it is time
  100 and the receiver has no token. \<^verbatim>\<open>ensureCurrentToken\<close> returns \<^verbatim>\<open>nil\<close> and the
  receiver now holds the expired token: the expiry of a record read from the cache is
  never compared with the clock.
\<close>

theorem go_accepts_expired_cache_record:
  "ensureCurrentToken (ex_go_env 100 (reply 200 [''x''])) (ex_f None)
       (ex_world [(''/g/com.shopify.fastgcs.json'', ''T 5'')])
     = (None, ex_f (Some \<lparr>Token = ''T'', Expiry = 5\<rparr>),
        emit (ReadFile ''/g/com.shopify.fastgcs.json'')
          (ex_world [(''/g/com.shopify.fastgcs.json'', ''T 5'')]))
   \<and> token_current (ex_go_env 100 (reply 200 [''x''])) (Some \<lparr>Token = ''T'', Expiry = 5\<rparr>) = False"
  by (simp add: ensureCurrentToken_def token_current_def findTokenInCache_def ex_gcloudConfigDir
      ex_token_path ex_token ex_token_update ex_go_env_def ex_world_def content_at_def emit_def
      Let_def)

text \<open>
  C8 on the Go code. The object (\<open>BODY\<close>, ETag \<open>v1\<close>) does not change and the endpoint
  answers 304 to a matching \<^verbatim>\<open>If-None-Match\<close>. Two \<^verbatim>\<open>update\<close>s in a row: the second
  request carries no \<^verbatim>\<open>If-None-Match\<close> either (no ETag was stored), is answered with
  the full content, and the cache file is written again.
\<close>

theorem go_second_fetch_unconditional:
  "trace (snd (update (ex_go_env 10 (etag_server ''BODY'' ''v1''))
          (ex_f (Some \<lparr>Token = ''T'', Expiry = 100\<rparr>)) ''gs://b/k''
          (snd (update (ex_go_env 10 (etag_server ''BODY'' ''v1''))
             (ex_f (Some \<lparr>Token = ''T'', Expiry = 100\<rparr>)) ''gs://b/k'' (ex_world [])))))
     = [Get \<lparr>req_url = ''https://storage.googleapis.com/storage/v1/b/b/o/k?alt=media'',
             authorization = ''Bearer T'', if_none_match = None\<rparr>,
        Create ''/c/b--k'' perm_0644,
        Write ''/c/b--k'' ''BODY'',
        Get \<lparr>req_url = ''https://storage.googleapis.com/storage/v1/b/b/o/k?alt=media'',
             authorization = ''Bearer T'', if_none_match = None\<rparr>,
        Write ''/c/b--k'' ''BODY'']"
  by (simp add: go_eval)

lemma ex_paths:
  "CREDENTIAL_CACHE (ex_ruby_env now srv) = ''/h/.config/gcloud/com.shopify.fastgcs.json''"
  "ACCESS_TOKENS_DB (ex_ruby_env now srv) = ''/h/.config/gcloud/access_tokens.db''"
  "CREDENTIALS_DB (ex_ruby_env now srv) = ''/h/.config/gcloud/credentials.db''"
  "CACHE (ex_ruby_env now srv) = ''/h/.cache/fastgcs''"
  by (simp_all add: CREDENTIAL_CACHE_def ACCESS_TOKENS_DB_def CREDENTIALS_DB_def CACHE_def
      ex_ruby_env_def)

lemma ex_ruby_fields:
  "Time_now (ex_ruby_env now srv) = now"
  "storage (ex_ruby_env now srv) = srv"
  "mktmpdir (ex_ruby_env now srv) = ''/tmp/d''"
  "token_endpoint (ex_ruby_env now srv) body = Some (200, ''N 3600'')"
  "scan_access_tokens (ex_ruby_env now srv) db = []"
  "parse_refresh (ex_ruby_env now srv) ''N 3600'' = Some (Some ''N'', Some 3600)"
  "io_flushed (ex_ruby_env now srv) data = 0"
  "File_rename (ex_ruby_env now srv) src dst = Renamed"
  "parse_cache_record (ex_ruby_env now srv) ''T 5'' = Some (''T'', 5)"
  "parse_cache_record (ex_ruby_env now srv) ''U 500'' = Some (''U'', 500)"
  "cache_record_json (ex_ruby_env now srv) (Some t) e = ''record of '' @ t"
  "refresh_request_json (ex_ruby_env now srv) a b c = ''grant '' @ c"
  by (simp_all add: ex_ruby_env_def)

lemmas ruby_eval =
  ensure_current_token_def token_fresh_def or_else_def try_access_token_from_cache_def
  try_access_token_from_gcloud_db_def refresh_access_token_def update_cache_def File_write_def
  open_wronly_creat_trunc_def open_wronly_creat_def write_file_def write_at_def emit_def
  content_at_def ex_paths ex_ruby_fields ex_world_def ex_self_def Let_def

text \<open>
  C5 on the code. Ruby: no token in memory, no token cache and no
  \<^verbatim>\<open>access_tokens.db\<close> on disk, and a token endpoint that would grant a token.
  \<^verbatim>\<open>try_access_token_from_gcloud_db\<close> does not rescue \<^verbatim>\<open>Errno::ENOENT\<close>, so
  \<^verbatim>\<open>ensure_current_token\<close> raises it after two tiers: the refresh exchange is never
  tried (no \<open>Post\<close> in the trace) and nothing is stored. With an (unusable)
  \<^verbatim>\<open>access_tokens.db\<close> in place the same call goes on to the third tier and succeeds.
  Go: \<^verbatim>\<open>ensureCurrentToken\<close> has the cache tier only and fails after it.
\<close>

theorem missing_sdk_store_stops_resolution:
  "ensure_current_token (ex_ruby_env 100 (reply 200 [''x''])) (ex_self None None) (ex_world [])
     = (Some (ENOENT ''/h/.config/gcloud/access_tokens.db''), ex_self None None,
        \<lparr>files = Map.empty, umask = 0x12, denied = (\<lambda>p. False),
         trace = [ReadFile ''/h/.config/gcloud/com.shopify.fastgcs.json'',
                  ReadFile ''/h/.config/gcloud/access_tokens.db'']\<rparr>)
   \<and> fst (ensure_current_token (ex_ruby_env 100 (reply 200 [''x''])) (ex_self None None)
          (ex_world [(''/h/.config/gcloud/access_tokens.db'', ''no match'')])) = None
   \<and> trace (snd (snd (ensure_current_token (ex_ruby_env 100 (reply 200 [''x'']))
          (ex_self None None) (ex_world [(''/h/.config/gcloud/access_tokens.db'', ''no match'')]))))
     = [ReadFile ''/h/.config/gcloud/com.shopify.fastgcs.json'',
        ReadFile ''/h/.config/gcloud/access_tokens.db'',
        Post ''https://oauth2.googleapis.com/token'' ''grant r'',
        Create ''/h/.config/gcloud/com.shopify.fastgcs.json'' perm_0644,
        Write ''/h/.config/gcloud/com.shopify.fastgcs.json'' ''record of N'',
        Write ''/h/.config/gcloud/com.shopify.fastgcs.json'' ''record of N'']
   \<and> ensureCurrentToken (ex_go_env 100 (reply 200 [''x''])) (ex_f None) (ex_world [])
     = (Some NoAccessToken, ex_f None,
        \<lparr>files = Map.empty, umask = 0x12, denied = (\<lambda>p. False),
         trace = [ReadFile ''/g/com.shopify.fastgcs.json'']\<rparr>)"
  by (simp add: ruby_eval ensureCurrentToken_def token_current_def findTokenInCache_def
      ex_gcloudConfigDir ex_token_path ex_token ex_go_env_def)

text \<open>
  C9 on the code. Storing a token when no cache file exists, under umask 022:
  \<^verbatim>\<open>File.write\<close> creates the file with mode 0666 less the umask, 0644, and the
  \<^verbatim>\<open>File.open(..., 0600)\<close> that follows finds the file in place, so its mode argument
  is not used: the record ends up readable by group and others. Every step is on the
  cache path itself (no temporary file, no rename); over an existing record the first
  step empties the file, which a reader can see before the new record is written.
\<close>

theorem update_cache_mode_and_steps:
  "update_cache (ex_ruby_env 100 (reply 200 [''x''])) (ex_self (Some ''N'') (Some 3700)) (ex_world [])
     = (None,
        \<lparr>files = [''/h/.config/gcloud/com.shopify.fastgcs.json''
                    \<mapsto> \<lparr>perm = perm_0644, content = ''record of N''\<rparr>],
         umask = 0x12, denied = (\<lambda>p. False),
         trace = [Create ''/h/.config/gcloud/com.shopify.fastgcs.json'' perm_0644,
                  Write ''/h/.config/gcloud/com.shopify.fastgcs.json'' ''record of N'',
                  Write ''/h/.config/gcloud/com.shopify.fastgcs.json'' ''record of N'']\<rparr>)
   \<and> perm_0644 \<noteq> perm_0600
   \<and> trace (snd (update_cache (ex_ruby_env 100 (reply 200 [''x''])) (ex_self (Some ''N'') (Some 3700))
          (ex_world [(''/h/.config/gcloud/com.shopify.fastgcs.json'', ''record of U'')])))
     = [Write ''/h/.config/gcloud/com.shopify.fastgcs.json'' [],
        Write ''/h/.config/gcloud/com.shopify.fastgcs.json'' ''record of N'',
        Write ''/h/.config/gcloud/com.shopify.fastgcs.json'' ''record of N'']"
  by (simp add: ruby_eval)

section \<open>Frame properties of the Ruby credential resolver\<close>

lemma files_write_file_other: "q \<noteq> p \<Longrightarrow> files (write_file p off data w) q = files w q"
  by (simp add: write_file_def Let_def split: option.splits)

lemma files_write_chunks_other: "q \<noteq> p \<Longrightarrow> files (write_chunks p off cs w) q = files w q"
  by (induction cs arbitrary: off w) (auto simp: files_write_file_other)

lemma files_open_other:
  "open_wronly_creat p m w = Some w' \<Longrightarrow> q \<noteq> p \<Longrightarrow> files w' q = files w q"
  by (auto simp: open_wronly_creat_def split: if_splits option.splits)

lemma denied_open: "open_wronly_creat p m w = Some w' \<Longrightarrow> denied w' = denied w"
  by (auto simp: open_wronly_creat_def split: if_splits option.splits)

lemma files_open_trunc_other:
  "open_wronly_creat_trunc p m w = Some w' \<Longrightarrow> q \<noteq> p \<Longrightarrow> files w' q = files w q"
  by (auto simp: open_wronly_creat_trunc_def split: if_splits option.splits)

lemma denied_open_trunc: "open_wronly_creat_trunc p m w = Some w' \<Longrightarrow> denied w' = denied w"
  by (auto simp: open_wronly_creat_trunc_def split: if_splits option.splits)

lemma files_File_write_other: "q \<noteq> p \<Longrightarrow> files (snd (File_write p data w)) q = files w q"
  by (auto simp: File_write_def files_write_file_other files_open_trunc_other split: option.splits)

lemma denied_File_write [simp]: "denied (snd (File_write p data w)) = denied w"
  by (auto simp: File_write_def denied_open_trunc split: option.splits)

lemma files_remove_other: "q \<noteq> p \<Longrightarrow> files (remove_file p w) q = files w q"
  by (simp add: remove_file_def split: option.splits)

lemma files_update_cache_other:
  "q \<noteq> CREDENTIAL_CACHE env \<Longrightarrow> files (snd (update_cache env self w)) q = files w q"
proof -
  assume q: "q \<noteq> CREDENTIAL_CACHE env"
  obtain r w1 where fw: "File_write (CREDENTIAL_CACHE env)
      (cache_record_json env (at_token self) (at_expiry self)) w = (r, w1)"
    by (cases "File_write (CREDENTIAL_CACHE env)
      (cache_record_json env (at_token self) (at_expiry self)) w")
  have w1: "files w1 q = files w q" using files_File_write_other[OF q, of _ w] fw
    by (metis snd_conv)
  show ?thesis
    unfolding update_cache_def Let_def fw
    using w1 q
    by (auto simp: files_write_file_other files_open_other split: option.splits)
qed

lemma denied_update_cache [simp]: "denied (snd (update_cache env self w)) = denied w"
proof -
  obtain r w1 where fw: "File_write (CREDENTIAL_CACHE env)
      (cache_record_json env (at_token self) (at_expiry self)) w = (r, w1)"
    by (cases "File_write (CREDENTIAL_CACHE env)
      (cache_record_json env (at_token self) (at_expiry self)) w")
  have w1: "denied w1 = denied w" using denied_File_write[of "CREDENTIAL_CACHE env" _ w] fw
    by (metis snd_conv)
  show ?thesis
    unfolding update_cache_def Let_def fw
    using w1 by (auto simp: denied_open split: option.splits)
qed

lemma tier1_world:
  "snd (snd (try_access_token_from_cache env self w)) = emit (ReadFile (CREDENTIAL_CACHE env)) w"
  by (simp add: try_access_token_from_cache_def Let_def split: option.splits prod.splits)

lemma tier2_world:
  "snd (snd (try_access_token_from_gcloud_db env self w)) = emit (ReadFile (ACCESS_TOKENS_DB env)) w"
  by (simp add: try_access_token_from_gcloud_db_def Let_def
      split: option.splits prod.splits list.splits)

lemma tier3_world:
  "snd (snd (refresh_access_token env self w))
     = emit (Post ''https://oauth2.googleapis.com/token''
         (refresh_request_json env (at_client_id self) (at_client_secret self) (at_refresh_token self))) w"
  by (simp add: refresh_access_token_def Let_def split: option.splits prod.splits)

lemma or_else_keeps:
  assumes "files (snd (snd r)) = F \<and> denied (snd (snd r)) = D"
    and "\<And>s w'. files w' = F \<and> denied w' = D \<Longrightarrow>
           files (snd (snd (tier s w'))) = F \<and> denied (snd (snd (tier s w'))) = D"
  shows "files (snd (snd (or_else r tier))) = F \<and> denied (snd (snd (or_else r tier))) = D"
proof (cases r)
  case (fields a s w')
  show ?thesis
  proof (cases a)
    case (Inl e)
    with fields assms(1) show ?thesis by (simp add: or_else_def)
  next
    case (Inr found)
    with fields assms show ?thesis by (cases found) (auto simp: or_else_def)
  qed
qed

lemma tiers_keep_files:
  "files (snd (snd (or_else (or_else (try_access_token_from_cache env self w)
        (try_access_token_from_gcloud_db env)) (refresh_access_token env)))) = files w
   \<and> denied (snd (snd (or_else (or_else (try_access_token_from_cache env self w)
        (try_access_token_from_gcloud_db env)) (refresh_access_token env)))) = denied w"
  by (intro or_else_keeps) (simp_all add: tier1_world tier2_world tier3_world)

lemma ensure_current_token_frame:
  assumes "q \<noteq> CREDENTIAL_CACHE env"
  shows "files (snd (snd (ensure_current_token env self w))) q = files w q"
    and "denied (snd (snd (ensure_current_token env self w))) = denied w"
proof -
  let ?t = "or_else (or_else (try_access_token_from_cache env self w)
        (try_access_token_from_gcloud_db env)) (refresh_access_token env)"
  obtain a s1 w1 where t: "?t = (a, s1, w1)" by (cases ?t)
  have k: "files w1 = files w" "denied w1 = denied w" using tiers_keep_files[of env self w] t by simp_all
  obtain r2 w2 where uc: "update_cache env s1 w1 = (r2, w2)" by (cases "update_cache env s1 w1")
  have u: "files w2 q = files w q"
    using files_update_cache_other[OF assms, of s1 w1] k uc by simp
  have d: "denied w2 = denied w" using denied_update_cache[of env s1 w1] k uc by simp
  show "files (snd (snd (ensure_current_token env self w))) q = files w q"
    using u k by (simp add: ensure_current_token_def t uc split: sum.splits bool.splits)
  show "denied (snd (snd (ensure_current_token env self w))) = denied w"
    using d k by (simp add: ensure_current_token_def t uc split: sum.splits bool.splits)
qed

lemma ensure_current_token_fresh:
  "token_fresh env self = Inr True \<Longrightarrow> ensure_current_token env self w = (None, self, w)"
  by (simp add: ensure_current_token_def)

section \<open>Properties of the Ruby fetch\<close>

text \<open>
  The Ruby class does what the Go package leaves out: it reads the status, downloads to
  a temporary file, moves that file onto the cache path, and revalidates with the stored
  ETag. The theorems of this section state how far that goes: the temporary file is
  moved while it is still open, so what the move promotes is what has left the buffer
  by then, and the rest follows when the file is closed.
\<close>

lemma trace_write_file:
  "files w p = Some fl \<Longrightarrow>
   trace (write_file p off data w) = trace w @ [Write p (write_at (content fl) off data)]"
  by (simp add: write_file_def Let_def emit_def)

lemma umask_write_file [simp]: "umask (write_file p off data w) = umask w"
  by (simp add: write_file_def Let_def split: option.splits)

lemma files_io_write_other: "q \<noteq> io \<Longrightarrow> files (fst (io_write env io data w)) q = files w q"
  by (simp add: io_write_def Let_def files_write_file_other)

lemma files_io_close_other: "loc \<noteq> Some q \<Longrightarrow> files (io_close loc buf w) q = files w q"
  by (cases loc) (simp_all add: io_close_def files_write_file_other)

lemma io_close_empty [simp]: "io_close loc (off, []) w = w"
  by (cases loc) (simp_all add: io_close_def)

lemma io_close_tail:
  assumes "files w q = Some fl" and "content fl = take n body" and "n \<le> length body"
  shows "content_at (io_close (Some q) (n, drop n body) w) q = Some body"
    and "trace (io_close (Some q) (n, drop n body) w)
           = trace w @ (if n < length body then [Write q body] else [])"
proof -
  have c: "write_at (take n body) n (drop n body) = body"
    using assms(3) by (simp add: write_at_def min_absorb2)
  show "content_at (io_close (Some q) (n, drop n body) w) q = Some body"
    using assms c by (simp add: io_close_def write_file_def Let_def content_at_def)
  show "trace (io_close (Some q) (n, drop n body) w)
           = trace w @ (if n < length body then [Write q body] else [])"
    using assms c by (simp add: io_close_def write_file_def Let_def emit_def)
qed

lemma get_frame:
  assumes "q \<noteq> CREDENTIAL_CACHE env" "q \<noteq> io"
  shows "files (fst (snd (snd (get env self url io etg w)))) q = files w q"
proof -
  obtain r s1 w1 where e: "ensure_current_token env self w = (r, s1, w1)"
    by (cases "ensure_current_token env self w")
  have k: "files w1 q = files w q"
    using ensure_current_token_frame(1)[OF assms(1), of self w] e by simp
  show ?thesis
    using k assms(2)
    by (simp add: get_def e Let_def io_write_def files_write_file_other
        split: option.splits sum.splits prod.splits)
qed

lemma get_no_content:
  assumes "\<forall>req resp. storage env req = Some resp \<longrightarrow> status resp \<noteq> 200"
  shows "\<exists>r. fst (get env self url io etg w) = Inl r \<or> fst (get env self url io etg w) = Inr None"
proof -
  obtain r s1 w1 where e: "ensure_current_token env self w = (r, s1, w1)"
    by (cases "ensure_current_token env self w")
  show ?thesis
    using assms
    by (auto simp: get_def e Let_def split: option.splits sum.splits prod.splits)
qed

lemma update_http_frame_unless_content:
  assumes "p \<noteq> CREDENTIAL_CACHE env" "p \<noteq> File_join (mktmpdir env) ''file''"
    and "\<forall>req resp. storage env req = Some resp \<longrightarrow> status resp \<noteq> 200"
  shows "files (snd (snd (update_http env self p url w))) p = files w p"
proof -
  let ?tmp = "File_join (mktmpdir env) ''file''"
  let ?w0 = "emit (ReadFile (etag_path p)) w"
  show ?thesis
  proof (cases "open_wronly_creat ?tmp perm_0644 ?w0")
    case None
    then show ?thesis by (simp add: update_http_def Let_def)
  next
    case (Some w1)
    have f1: "files w1 p = files w p" using files_open_other[OF Some, of p] assms(2) by simp
    let ?g = "get env self url ?tmp (content_at w (etag_path p)) w1"
    obtain r s2 w2 off rest where g: "?g = (r, s2, w2, off, rest)" by (cases ?g)
    have f2: "files w2 p = files w p"
      using get_frame[OF assms(1,2), of self url "content_at w (etag_path p)" w1] g f1 by simp
    have f3: "files (remove_file ?tmp (io_close (Some ?tmp) (off, rest) w2)) p = files w p"
      using f2 assms(2) by (simp add: files_remove_other files_io_close_other)
    have "\<exists>e. fst ?g = Inl e \<or> fst ?g = Inr None"
      using get_no_content[OF assms(3)] by simp
    with g have "(\<exists>e. r = Inl e) \<or> r = Inr None" by simp
    then show ?thesis
      using f3 by (auto simp: update_http_def Let_def Some g)
  qed
qed

lemma get_status:
  assumes "token_fresh env self = Inr True" "parse_gs_url url = Inr (b, k)"
    and "storage env (storage_request b k (at_token self) etg) = Some resp"
  shows "get env self url io etg w =
           (if status resp = 200 then
              (if body_ok resp then Inr (etag resp) else Inl ConnectionError, self,
               io_write env io (concat (chunks resp))
                 (emit (Get (storage_request b k (at_token self) etg)) w))
            else (if status resp = 304 then Inr None else Inl (HTTPError (status resp)), self,
                  emit (Get (storage_request b k (at_token self) etg)) w, 0, []))"
  using assms
  by (simp add: get_def ensure_current_token_fresh Let_def storage_request_def
      split: prod.splits)

lemma get_fails:
  assumes "\<forall>req. \<exists>resp. storage env req = Some resp \<and> status resp = st"
    and "st \<noteq> 200" "st \<noteq> 304"
  shows "\<exists>e. fst (get env self url io etg w) = Inl e"
proof -
  obtain r s1 w1 where e: "ensure_current_token env self w = (r, s1, w1)"
    by (cases "ensure_current_token env self w")
  show ?thesis
  proof (cases r)
    case (Some err)
    then show ?thesis by (simp add: get_def e)
  next
    case None
    show ?thesis
    proof (cases "parse_gs_url url")
      case (Inl err)
      with None show ?thesis by (simp add: get_def e)
    next
      case (Inr bk)
      obtain b k where bk: "bk = (b, k)" by (cases bk)
      obtain resp where r: "storage env (storage_request b k (at_token s1) etg) = Some resp"
        and s: "status resp = st" using assms(1) by blast
      show ?thesis using None Inr bk r s assms(2,3) by (simp add: get_def e Let_def)
    qed
  qed
qed

text \<open>
  The Ruby side of C1. When the endpoint answers with a status that is neither 200 nor
  304, \<^verbatim>\<open>update_http\<close> raises, and the cache file is as it was; with a current token
  in memory, a well-formed reference and a temporary file that can be opened, what it
  raises is the HTTP error with that status.
\<close>

theorem ruby_bad_status_keeps_cache:
  assumes "p \<noteq> CREDENTIAL_CACHE env"
    and "p \<noteq> File_join (mktmpdir env) ''file''"
    and "\<forall>req. \<exists>resp. storage env req = Some resp \<and> status resp = st"
    and "st \<noteq> 200" and "st \<noteq> 304"
  shows "files (snd (snd (update_http env self p url w))) p = files w p
     \<and> fst (update_http env self p url w) \<noteq> None
     \<and> (token_fresh env self = Inr True \<and> parse_gs_url url = Inr (b, k)
          \<and> denied w (File_join (mktmpdir env) ''file'') = False
        \<longrightarrow> fst (update_http env self p url w) = Some (HTTPError st))"
proof -
  let ?tmp = "File_join (mktmpdir env) ''file''"
  let ?w0 = "emit (ReadFile (etag_path p)) w"
  let ?etg = "content_at w (etag_path p)"
  have no200: "\<forall>req resp. storage env req = Some resp \<longrightarrow> status resp \<noteq> 200"
    using assms(3,4) by (metis option.inject)
  have frame: "files (snd (snd (update_http env self p url w))) p = files w p"
    using update_http_frame_unless_content[OF assms(1,2) no200] .
  have fails: "fst (update_http env self p url w) \<noteq> None"
  proof (cases "open_wronly_creat ?tmp perm_0644 ?w0")
    case None
    then show ?thesis by (simp add: update_http_def Let_def)
  next
    case (Some w1)
    obtain r s2 w2 buf where g: "get env self url ?tmp ?etg w1 = (r, s2, w2, buf)"
      by (cases "get env self url ?tmp ?etg w1")
    from get_fails[OF assms(3-5), of self url ?tmp ?etg w1] g obtain e where "r = Inl e" by auto
    with g Some show ?thesis by (simp add: update_http_def Let_def)
  qed
  have err: "fst (update_http env self p url w) = Some (HTTPError st)"
    if h: "token_fresh env self = Inr True" "parse_gs_url url = Inr (b, k)" "denied w ?tmp = False"
  proof -
    from h(3) have "open_wronly_creat ?tmp perm_0644 ?w0 \<noteq> None"
      by (simp add: open_wronly_creat_def split: option.splits)
    then obtain w1 where o: "open_wronly_creat ?tmp perm_0644 ?w0 = Some w1" by auto
    obtain resp where r: "storage env (storage_request b k (at_token self) ?etg) = Some resp"
      and s: "status resp = st" using assms(3) by blast
    show ?thesis
      using get_status[OF h(1,2) r, of ?tmp w1] s assms(4,5) o
      by (simp add: update_http_def Let_def)
  qed
  show ?thesis using frame fails err by blast
qed

theorem ruby_bad_status_keeps_cache_witness:
  "files (snd (snd (update_http (ex_ruby_env 100 (reply 500 [''oops''])) (ex_self (Some ''N'') (Some 3700))
       ''/h/.cache/fastgcs/b--k'' ''gs://b/k''
       (ex_world [(''/h/.cache/fastgcs/b--k'', ''BODY''), (''/h/.cache/fastgcs/.b--k.etag'', ''v1'')]))))
     ''/h/.cache/fastgcs/b--k'' = Some \<lparr>perm = perm_0644, content = ''BODY''\<rparr>
   \<and> fst (update_http (ex_ruby_env 100 (reply 500 [''oops''])) (ex_self (Some ''N'') (Some 3700))
       ''/h/.cache/fastgcs/b--k'' ''gs://b/k''
       (ex_world [(''/h/.cache/fastgcs/b--k'', ''BODY''), (''/h/.cache/fastgcs/.b--k.etag'', ''v1'')]))
     = Some (HTTPError 500)"
proof -
  let ?env = "ex_ruby_env 100 (reply 500 [''oops''])"
  let ?self = "ex_self (Some ''N'') (Some 3700)"
  let ?p = "''/h/.cache/fastgcs/b--k''"
  let ?w = "ex_world [(?p, ''BODY''), (''/h/.cache/fastgcs/.b--k.etag'', ''v1'')]"
  have tmp: "File_join (mktmpdir ?env) ''file'' = ''/tmp/d/file''"
    by (simp add: File_join_def ex_ruby_fields)
  have h1: "?p \<noteq> CREDENTIAL_CACHE ?env" by (simp add: ex_paths)
  have h2: "?p \<noteq> File_join (mktmpdir ?env) ''file''" by (simp add: tmp)
  have h3: "\<forall>req. \<exists>resp. storage ?env req = Some resp \<and> status resp = 500"
    by (simp add: ex_ruby_fields reply_def)
  have h4: "(500::nat) \<noteq> 200" "(500::nat) \<noteq> 304" by simp_all
  have h5: "token_fresh ?env ?self = Inr True"
    by (simp add: token_fresh_def ex_self_def ex_ruby_fields)
  have h6: "parse_gs_url ''gs://b/k'' = Inr (''b'', ''k'')"
    by (simp add: parse_gs_url_def gs_match_at_def)
  have h7: "denied ?w (File_join (mktmpdir ?env) ''file'') = False" by (simp add: ex_world_def)
  have h8: "files ?w ?p = Some \<lparr>perm = perm_0644, content = ''BODY''\<rparr>" by (simp add: ex_world_def)
  show ?thesis
    using ruby_bad_status_keeps_cache[OF h1 h2 h3 h4, of ?self "''gs://b/k''" ?w "''b''" "''k''"]
      h5 h6 h7 h8 by simp
qed

text \<open>
  The Ruby side of C6. \<^verbatim>\<open>try_access_token_from_cache\<close> accepts the cached record
  exactly when the file is there, decodes, and its expiry is strictly after the clock;
  it then holds the record's token. An expired record is not accepted, and with no
  token in memory resolution goes on to read the SDK store.
\<close>

theorem ruby_cache_record_accepted_iff:
  "(fst (try_access_token_from_cache env self w) = Inr True
      \<longleftrightarrow> (\<exists>data tok expiry. content_at w (CREDENTIAL_CACHE env) = Some data
             \<and> parse_cache_record env data = Some (tok, expiry) \<and> Time_now env < expiry))
   \<and> (content_at w (CREDENTIAL_CACHE env) = Some data
        \<and> parse_cache_record env data = Some (tok, expiry) \<and> Time_now env < expiry
      \<longrightarrow> at_token (fst (snd (try_access_token_from_cache env self w))) = Some tok
          \<and> at_expiry (fst (snd (try_access_token_from_cache env self w))) = Some expiry)
   \<and> (content_at w (CREDENTIAL_CACHE env) = Some data
        \<and> parse_cache_record env data = Some (tok, expiry) \<and> expiry \<le> Time_now env
      \<longrightarrow> try_access_token_from_cache env self w
            = (Inr False, self, emit (ReadFile (CREDENTIAL_CACHE env)) w)
          \<and> (at_token self = None \<longrightarrow>
               ReadFile (ACCESS_TOKENS_DB env)
                 \<in> set (trace (snd (snd (ensure_current_token env self w))))))"
proof -
  have a: "fst (try_access_token_from_cache env self w) = Inr True
      \<longleftrightarrow> (\<exists>data tok expiry. content_at w (CREDENTIAL_CACHE env) = Some data
             \<and> parse_cache_record env data = Some (tok, expiry) \<and> Time_now env < expiry)"
    by (auto simp: try_access_token_from_cache_def Let_def split: option.splits)
  have b: "at_token (fst (snd (try_access_token_from_cache env self w))) = Some tok
          \<and> at_expiry (fst (snd (try_access_token_from_cache env self w))) = Some expiry"
    if "content_at w (CREDENTIAL_CACHE env) = Some data"
       "parse_cache_record env data = Some (tok, expiry)" "Time_now env < expiry"
    using that by (simp add: try_access_token_from_cache_def Let_def)
  have c: "try_access_token_from_cache env self w
            = (Inr False, self, emit (ReadFile (CREDENTIAL_CACHE env)) w)"
    if "content_at w (CREDENTIAL_CACHE env) = Some data"
       "parse_cache_record env data = Some (tok, expiry)" "expiry \<le> Time_now env"
    using that by (simp add: try_access_token_from_cache_def Let_def)
  have d: "ReadFile (ACCESS_TOKENS_DB env) \<in> set (trace (snd (snd (ensure_current_token env self w))))"
    if h: "content_at w (CREDENTIAL_CACHE env) = Some data"
       "parse_cache_record env data = Some (tok, expiry)" "expiry \<le> Time_now env"
       "at_token self = None"
  proof -
    let ?w1 = "emit (ReadFile (CREDENTIAL_CACHE env)) w"
    let ?t2 = "try_access_token_from_gcloud_db env self ?w1"
    obtain a2 s2 w2 where t2: "?t2 = (a2, s2, w2)" by (cases ?t2)
    have w2: "w2 = emit (ReadFile (ACCESS_TOKENS_DB env)) ?w1"
      using tier2_world[of env self ?w1] t2 by simp
    have in2: "ReadFile (ACCESS_TOKENS_DB env) \<in> set (trace w2)" by (simp add: w2 emit_def)
    have grow3: "set (trace w') \<subseteq> set (trace (snd (snd (refresh_access_token env s w'))))" for s w'
      by (auto simp: tier3_world emit_def)
    have growc: "set (trace w') \<subseteq> set (trace (snd (update_cache env s w')))" for s w'
      by (auto simp: update_cache_def File_write_def open_wronly_creat_trunc_def
          open_wronly_creat_def write_file_def emit_def Let_def split: option.splits)
    let ?t = "or_else (or_else (try_access_token_from_cache env self w)
        (try_access_token_from_gcloud_db env)) (refresh_access_token env)"
    have t: "?t = or_else ?t2 (refresh_access_token env)"
      using c[OF h(1-3)] by (simp add: or_else_def)
    obtain a3 s3 w3 where t3: "?t = (a3, s3, w3)" by (cases ?t)
    have in3: "ReadFile (ACCESS_TOKENS_DB env) \<in> set (trace w3)"
    proof (cases a2)
      case (Inl e)
      with t t2 t3 in2 show ?thesis by (simp add: or_else_def)
    next
      case (Inr found)
      show ?thesis
      proof (cases found)
        case True
        with Inr t t2 t3 in2 show ?thesis by (simp add: or_else_def)
      next
        case False
        with Inr t t2 t3 have "w3 = snd (snd (refresh_access_token env s2 w2))"
          by (simp add: or_else_def)
        with in2 grow3[of w2 s2] show ?thesis by auto
      qed
    qed
    have tf: "token_fresh env self = Inr False" using h(4) by (simp add: token_fresh_def)
    show ?thesis
      using in3 growc[of w3 s3]
      by (cases a3) (auto simp: ensure_current_token_def tf t3 split: prod.splits)
  qed
  show ?thesis using a b c d by blast
qed

theorem ruby_cache_record_accepted_iff_witness:
  "fst (try_access_token_from_cache (ex_ruby_env 100 (reply 200 [])) (ex_self None None)
          (ex_world [(''/h/.config/gcloud/com.shopify.fastgcs.json'', ''U 500'')])) = Inr True
   \<and> at_token (fst (snd (try_access_token_from_cache (ex_ruby_env 100 (reply 200 []))
          (ex_self None None)
          (ex_world [(''/h/.config/gcloud/com.shopify.fastgcs.json'', ''U 500'')])))) = Some ''U''
   \<and> fst (try_access_token_from_cache (ex_ruby_env 100 (reply 200 [])) (ex_self None None)
          (ex_world [(''/h/.config/gcloud/com.shopify.fastgcs.json'', ''T 5'')])) = Inr False
   \<and> fst (try_access_token_from_cache (ex_ruby_env 500 (reply 200 [])) (ex_self None None)
          (ex_world [(''/h/.config/gcloud/com.shopify.fastgcs.json'', ''U 500'')])) = Inr False"
proof -
  let ?env = "ex_ruby_env 100 (reply 200 [])"
  let ?env5 = "ex_ruby_env 500 (reply 200 [])"
  let ?cc = "''/h/.config/gcloud/com.shopify.fastgcs.json''"
  have u: "content_at (ex_world [(?cc, ''U 500'')]) (CREDENTIAL_CACHE ?env) = Some ''U 500''"
    "content_at (ex_world [(?cc, ''U 500'')]) (CREDENTIAL_CACHE ?env5) = Some ''U 500''"
    "content_at (ex_world [(?cc, ''T 5'')]) (CREDENTIAL_CACHE ?env) = Some ''T 5''"
    by (simp_all add: ex_paths ex_world_def content_at_def)
  have p: "parse_cache_record ?env ''U 500'' = Some (''U'', 500)"
    "parse_cache_record ?env5 ''U 500'' = Some (''U'', 500)"
    "parse_cache_record ?env ''T 5'' = Some (''T'', 5)"
    by (simp_all add: ex_ruby_fields)
  have n: "Time_now ?env < 500" "(500::int) \<le> Time_now ?env5" "(5::int) \<le> Time_now ?env"
    by (simp_all add: ex_ruby_fields)
  from ruby_cache_record_accepted_iff[of ?env "ex_self None None" "ex_world [(?cc, ''U 500'')]"
      "''U 500''" "''U''" 500] u(1) p(1) n(1)
  have g1: "fst (try_access_token_from_cache ?env (ex_self None None)
              (ex_world [(?cc, ''U 500'')])) = Inr True"
    and g2: "at_token (fst (snd (try_access_token_from_cache ?env (ex_self None None)
              (ex_world [(?cc, ''U 500'')])))) = Some ''U''"
    by blast+
  from ruby_cache_record_accepted_iff[of ?env "ex_self None None" "ex_world [(?cc, ''T 5'')]"
      "''T 5''" "''T''" 5] u(3) p(3) n(3)
  have g3: "fst (try_access_token_from_cache ?env (ex_self None None)
              (ex_world [(?cc, ''T 5'')])) = Inr False"
    by simp
  from ruby_cache_record_accepted_iff[of ?env5 "ex_self None None" "ex_world [(?cc, ''U 500'')]"
      "''U 500''" "''U''" 500] u(2) p(2) n(2)
  have g4: "fst (try_access_token_from_cache ?env5 (ex_self None None)
              (ex_world [(?cc, ''U 500'')])) = Inr False"
    by simp
  show ?thesis using g1 g2 g3 g4 by (intro conjI)
qed

lemma promote_and_tag:
  assumes "files w3 tmp = Some fl"
    and "denied w3 (etag_path p) = False"
    and "p \<noteq> tmp" "etag_path p \<noteq> tmp" "etag_path p \<noteq> p"
  shows "fst (File_write (etag_path p) e (rename_file tmp p w3)) = None"
    and "files (snd (File_write (etag_path p) e (rename_file tmp p w3))) p = Some fl"
    and "content_at (snd (File_write (etag_path p) e (rename_file tmp p w3))) (etag_path p) = Some e"
    and "files (snd (File_write (etag_path p) e (rename_file tmp p w3))) tmp = None"
    and "trace (snd (File_write (etag_path p) e (rename_file tmp p w3)))
           = trace w3 @ [Rename tmp p]
             @ (case files w3 (etag_path p) of
                  None \<Rightarrow> [Create (etag_path p) (perm_0666 AND NOT (umask w3))]
                | Some old \<Rightarrow> [Write (etag_path p) []])
             @ [Write (etag_path p) e]"
  using assms
  by (auto simp: File_write_def rename_file_def open_wronly_creat_trunc_def write_file_def
      write_at_def emit_def content_at_def Let_def split: option.splits)

text \<open>
  The Ruby side of C2. With a current token in memory, a fresh temporary file and a
  \<^verbatim>\<open>File.rename\<close> that succeeds, a 200 response is handled in this order, and in
  no other: the part of the body that leaves the buffer is written to the temporary
  file, the temporary file is renamed onto the cache path, the sidecar is written, and
  the file is closed, which writes the rest of the body through the open file to the
  cache path. Until the rename the cache path is not touched. After the call it holds
  the whole body; between the rename and the close it holds the first \<open>n\<close> bytes of it,
  where \<open>n\<close> is what \<open>io_flushed\<close> says of the body.
\<close>

theorem ruby_content_through_rename:
  assumes fresh: "token_fresh env self = Inr True"
    and url: "parse_gs_url url = Inr (b, k)"
    and tmp: "tmp = File_join (mktmpdir env) ''file''"
    and new: "files w tmp = None"
    and allowed: "denied w tmp = False" "denied w (etag_path p) = False"
    and apart: "p \<noteq> tmp" "etag_path p \<noteq> tmp" "etag_path p \<noteq> p"
    and req: "req = storage_request b k (at_token self) (content_at w (etag_path p))"
    and resp: "storage env req = Some resp"
      "status resp = 200" "body_ok resp" "etag resp = Some e"
    and renames: "File_rename env tmp p = Renamed"
    and body: "body = concat (chunks resp)"
    and n: "n = min (io_flushed env body) (length body)"
    and w': "w' = snd (snd (update_http env self p url w))"
  shows "fst (update_http env self p url w) = None
     \<and> content_at w' p = Some body
     \<and> content_at w' (etag_path p) = Some e
     \<and> files w' tmp = None
     \<and> trace w' =
         trace w @ [ReadFile (etag_path p), Create tmp (perm_0644 AND NOT (umask w)), Get req]
         @ (if n = 0 then [] else [Write tmp (take n body)])
         @ [Rename tmp p]
         @ (case files w (etag_path p) of
              None \<Rightarrow> [Create (etag_path p) (perm_0666 AND NOT (umask w))]
            | Some old \<Rightarrow> [Write (etag_path p) []])
         @ [Write (etag_path p) e]
         @ (if n < length body then [Write p body] else [])"
proof -
  let ?ep = "etag_path p"
  let ?m = "perm_0644 AND NOT (umask w)"
  let ?w0 = "emit (ReadFile ?ep) w"
  let ?w1 = "emit (Create tmp ?m) (?w0\<lparr>files := (files ?w0)(tmp \<mapsto> \<lparr>perm = ?m, content = []\<rparr>)\<rparr>)"
  let ?w2 = "emit (Get req) ?w1"
  let ?w3 = "if n = 0 then ?w2 else write_file tmp 0 (take n body) ?w2"
  let ?fl = "\<lparr>perm = ?m, content = take n body\<rparr>"
  have nle: "n \<le> length body" using n by simp
  have o: "open_wronly_creat tmp perm_0644 ?w0 = Some ?w1"
    using new allowed(1) by (simp add: open_wronly_creat_def)
  have iw: "io_write env tmp body ?w2 = (?w3, n, drop n body)"
    unfolding io_write_def Let_def n[symmetric] ..
  have g: "get env self url tmp (content_at w ?ep) ?w1 = (Inr (Some e), self, ?w3, n, drop n body)"
    using get_status[OF fresh url, of "content_at w ?ep" resp tmp ?w1] req resp body iw
    by simp
  have f2: "files ?w2 tmp = Some \<lparr>perm = ?m, content = []\<rparr>" by simp
  have f3: "files ?w3 tmp = Some ?fl"
    using f2 by (simp add: write_file_def Let_def write_at_def)
  have fe: "files ?w3 ?ep = files w ?ep"
    using apart(2) by (simp add: files_write_file_other)
  have d3: "denied ?w3 ?ep = False" using allowed(2) by simp
  have u3: "umask ?w3 = umask w" by simp
  have t3: "trace ?w3 = trace w @ [ReadFile ?ep, Create tmp ?m, Get req]
              @ (if n = 0 then [] else [Write tmp (take n body)])"
    using trace_write_file[OF f2, of 0 "take n body"] by (simp add: emit_def write_at_def)
  have mv: "FileUtils_mv env tmp p ?w3 = (None, rename_file tmp p ?w3, Some p)"
    using f3 renames by (simp add: FileUtils_mv_def)
  note P = promote_and_tag[OF f3 d3 apart, of e]
  let ?w5 = "snd (File_write ?ep e (rename_file tmp p ?w3))"
  let ?w6 = "io_close (Some p) (n, drop n body) ?w5"
  have c5: "content ?fl = take n body" by simp
  note C = io_close_tail[OF P(2) c5 nle]
  have e6: "content_at ?w6 ?ep = Some e"
    using P(3) apart(3) files_io_close_other[of "Some p" ?ep "(n, drop n body)" ?w5]
    by (simp add: content_at_def)
  have r6: "files ?w6 tmp = None"
    using P(4) apart(1) files_io_close_other[of "Some p" tmp "(n, drop n body)" ?w5] by simp
  have rm: "remove_file tmp ?w6 = ?w6" using r6 by (simp add: remove_file_def)
  have U: "update_http env self p url w = (None, self, ?w6)"
    using o g mv P(1) rm tmp by (simp add: update_http_def Let_def case_prod_beta)
  have W: "w' = ?w6" using w' U by simp
  show ?thesis
    unfolding W using U C e6 r6 P(5)[unfolded u3 fe] t3 by simp
qed

theorem ruby_content_through_rename_witness:
  "fst (update_http ((ex_ruby_env 100 (etag_server ''BODY'' ''v1''))\<lparr>io_flushed := (\<lambda>data. 2)\<rparr>)
          (ex_self (Some ''N'') (Some 3700))
          ''/h/.cache/fastgcs/b--k'' ''gs://b/k'' (ex_world [(''/h/.cache/fastgcs/b--k'', ''old'')]))
     = None
   \<and> content_at (snd (snd (update_http
          ((ex_ruby_env 100 (etag_server ''BODY'' ''v1''))\<lparr>io_flushed := (\<lambda>data. 2)\<rparr>)
          (ex_self (Some ''N'') (Some 3700)) ''/h/.cache/fastgcs/b--k'' ''gs://b/k''
          (ex_world [(''/h/.cache/fastgcs/b--k'', ''old'')])))) ''/h/.cache/fastgcs/b--k''
     = Some ''BODY''
   \<and> trace (snd (snd (update_http
          ((ex_ruby_env 100 (etag_server ''BODY'' ''v1''))\<lparr>io_flushed := (\<lambda>data. 2)\<rparr>)
          (ex_self (Some ''N'') (Some 3700)) ''/h/.cache/fastgcs/b--k'' ''gs://b/k''
          (ex_world [(''/h/.cache/fastgcs/b--k'', ''old'')]))))
     = [ReadFile ''/h/.cache/fastgcs/.b--k.etag'',
        Create ''/tmp/d/file'' perm_0644,
        Get (storage_request ''b'' ''k'' (Some ''N'') None),
        Write ''/tmp/d/file'' ''BO'',
        Rename ''/tmp/d/file'' ''/h/.cache/fastgcs/b--k'',
        Create ''/h/.cache/fastgcs/.b--k.etag'' perm_0644,
        Write ''/h/.cache/fastgcs/.b--k.etag'' ''v1'',
        Write ''/h/.cache/fastgcs/b--k'' ''BODY'']"
proof -
  let ?env = "(ex_ruby_env 100 (etag_server ''BODY'' ''v1''))\<lparr>io_flushed := (\<lambda>data. 2)\<rparr>"
  let ?self = "ex_self (Some ''N'') (Some 3700)"
  let ?p = "''/h/.cache/fastgcs/b--k''"
  let ?ep = "''/h/.cache/fastgcs/.b--k.etag''"
  let ?tmp = "''/tmp/d/file''"
  let ?w = "ex_world [(?p, ''old'')]"
  let ?resp = "\<lparr>status = 200, chunks = [''BODY''], body_ok = True, etag = Some ''v1''\<rparr>"
  have ep: "etag_path ?p = ?ep"
    by (simp add: etag_path_def File_join_def File_dirname_def File_basename_def)
  have h1: "token_fresh ?env ?self = Inr True"
    by (simp add: token_fresh_def ex_self_def ex_ruby_fields)
  have h2: "parse_gs_url ''gs://b/k'' = Inr (''b'', ''k'')"
    by (simp add: parse_gs_url_def gs_match_at_def)
  have h3: "?tmp = File_join (mktmpdir ?env) ''file''"
    by (simp add: File_join_def ex_ruby_fields)
  have h4: "files ?w ?tmp = None" by (simp add: ex_world_def)
  have h5: "denied ?w ?tmp = False" "denied ?w (etag_path ?p) = False"
    by (simp_all add: ex_world_def)
  have h6: "?p \<noteq> ?tmp" "etag_path ?p \<noteq> ?tmp" "etag_path ?p \<noteq> ?p" by (simp_all add: ep)
  have c: "content_at ?w (etag_path ?p) = None" by (simp add: ep ex_world_def content_at_def)
  have at: "at_token ?self = Some ''N''" by (simp add: ex_self_def)
  have h7: "storage_request ''b'' ''k'' (Some ''N'') None
              = storage_request ''b'' ''k'' (at_token ?self) (content_at ?w (etag_path ?p))"
    by (simp add: c at)
  have h8: "storage ?env (storage_request ''b'' ''k'' (Some ''N'') None) = Some ?resp"
    by (simp add: ex_ruby_fields etag_server_def storage_request_def)
  have h9: "status ?resp = 200" "body_ok ?resp" "etag ?resp = Some ''v1''" by simp_all
  have h10: "File_rename ?env ?tmp ?p = Renamed" by (simp add: ex_ruby_fields)
  have h11: "''BODY'' = concat (chunks ?resp)" by simp
  have h12: "(2::nat) = min (io_flushed ?env ''BODY'') (length ''BODY'')" by simp
  have fe: "files ?w ?ep = None" by (simp add: ex_world_def)
  have um: "perm_0644 AND NOT (umask ?w) = perm_0644" "perm_0666 AND NOT (umask ?w) = perm_0644"
    by (simp_all add: ex_world_def)
  have tr: "trace ?w = []" by (simp add: ex_world_def)
  show ?thesis
    using ruby_content_through_rename[OF h1 h2 h3 h4 h5 h6 h7 h8 h9 h10 h11 h12 refl]
    by (simp add: fe um ep tr)
qed

text \<open>
  When \<^verbatim>\<open>File.rename\<close> fails with \<^verbatim>\<open>Errno::EXDEV\<close> (the temporary directory and
  the cache are on different file systems), \<^verbatim>\<open>FileUtils.mv\<close> copies what the temporary file holds on disk and unlinks
  it; what is still in the buffer is written at \<^verbatim>\<open>close\<close> to the unlinked file. Here
  two bytes of \<open>BODY\<close> have left the buffer: the cache path is emptied, then holds
  \<open>BO\<close>, and keeps that, next to the sidecar with the ETag of the whole object.
\<close>

lemma ruby_move_by_copy_example:
  "(case update_http
          ((ex_ruby_env 100 (etag_server ''BODY'' ''v1''))
             \<lparr>io_flushed := (\<lambda>data. 2), File_rename := (\<lambda>src dst. EXDEV)\<rparr>)
          (ex_self (Some ''N'') (Some 3700))
          ''/h/.cache/fastgcs/b--k'' ''gs://b/k'' (ex_world [(''/h/.cache/fastgcs/b--k'', ''old'')])
    of (r, self1, w1) \<Rightarrow>
       (r, content_at w1 ''/h/.cache/fastgcs/b--k'',
        content_at w1 ''/h/.cache/fastgcs/.b--k.etag'', trace w1))
     = (None, Some ''BO'', Some ''v1'',
        [ReadFile ''/h/.cache/fastgcs/.b--k.etag'',
         Create ''/tmp/d/file'' perm_0644,
         Get (storage_request ''b'' ''k'' (Some ''N'') None),
         Write ''/tmp/d/file'' ''BO'',
         Write ''/h/.cache/fastgcs/b--k'' [],
         Write ''/h/.cache/fastgcs/b--k'' ''BO'',
         Remove ''/tmp/d/file'',
         Create ''/h/.cache/fastgcs/.b--k.etag'' perm_0644,
         Write ''/h/.cache/fastgcs/.b--k.etag'' ''v1''])"
  by (simp add: update_http_def etag_path_def File_join_def File_dirname_def File_basename_def
      get_def parse_gs_url_def gs_match_at_def storage_request_def bearer_def etag_server_def
      io_write_def io_close_def FileUtils_mv_def remove_file_def ruby_eval)

text \<open>
  The Ruby side of C8. When the sidecar holds the ETag a previous fetch stored and the
  endpoint answers the conditional request with 304, \<^verbatim>\<open>update_http\<close> sends exactly
  one request, carrying that ETag as \<^verbatim>\<open>If-None-Match\<close>, succeeds, and leaves every
  file as it was: the temporary file it created is gone again.
\<close>

theorem ruby_revalidation_keeps_files:
  assumes "token_fresh env self = Inr True"
    and "parse_gs_url url = Inr (b, k)"
    and "tmp = File_join (mktmpdir env) ''file''"
    and "files w tmp = None" and "denied w tmp = False"
    and "content_at w (etag_path p) = Some e"
    and "req = storage_request b k (at_token self) (Some e)"
    and "storage env req = Some resp" and "status resp = 304"
    and "w' = snd (snd (update_http env self p url w))"
  shows "fst (update_http env self p url w) = None
     \<and> files w' = files w
     \<and> if_none_match req = Some e
     \<and> trace w' = trace w @ [ReadFile (etag_path p), Create tmp (perm_0644 AND NOT (umask w)),
                               Get req, Remove tmp]"
proof -
  let ?ep = "etag_path p"
  let ?m = "perm_0644 AND NOT (umask w)"
  let ?w0 = "emit (ReadFile ?ep) w"
  let ?w1 = "emit (Create tmp ?m) (?w0\<lparr>files := (files ?w0)(tmp \<mapsto> \<lparr>perm = ?m, content = []\<rparr>)\<rparr>)"
  let ?w2 = "emit (Get req) ?w1"
  have o: "open_wronly_creat tmp perm_0644 ?w0 = Some ?w1"
    using assms(4,5) by (simp add: open_wronly_creat_def)
  have g: "get env self url tmp (content_at w ?ep) ?w1 = (Inr None, self, ?w2, 0, [])"
    using get_status[OF assms(1,2), of "Some e" resp tmp ?w1] assms(6-9) by simp
  have U: "update_http env self p url w = (None, self, remove_file tmp ?w2)"
    using o g assms(3) by (simp add: update_http_def Let_def)
  have restored: "(files w)(tmp := None) = files w" using assms(4) by (simp add: fun_upd_idem)
  have F: "files (remove_file tmp ?w2) = files w"
    using restored by (simp add: remove_file_def emit_def)
  have T: "trace (remove_file tmp ?w2) = trace w @ [ReadFile ?ep, Create tmp ?m, Get req, Remove tmp]"
    by (simp add: remove_file_def emit_def)
  have W: "w' = remove_file tmp ?w2" using assms(10) U by simp
  show ?thesis unfolding W using U F T assms(7) by (simp add: storage_request_def)
qed

theorem ruby_revalidation_keeps_files_witness:
  "fst (update_http (ex_ruby_env 100 (etag_server ''BODY'' ''v1'')) (ex_self (Some ''N'') (Some 3700))
          ''/h/.cache/fastgcs/b--k'' ''gs://b/k''
          (ex_world [(''/h/.cache/fastgcs/b--k'', ''BODY''), (''/h/.cache/fastgcs/.b--k.etag'', ''v1'')]))
     = None
   \<and> files (snd (snd (update_http (ex_ruby_env 100 (etag_server ''BODY'' ''v1''))
          (ex_self (Some ''N'') (Some 3700)) ''/h/.cache/fastgcs/b--k'' ''gs://b/k''
          (ex_world [(''/h/.cache/fastgcs/b--k'', ''BODY''), (''/h/.cache/fastgcs/.b--k.etag'', ''v1'')]))))
     = files (ex_world [(''/h/.cache/fastgcs/b--k'', ''BODY''), (''/h/.cache/fastgcs/.b--k.etag'', ''v1'')])
   \<and> trace (snd (snd (update_http (ex_ruby_env 100 (etag_server ''BODY'' ''v1''))
          (ex_self (Some ''N'') (Some 3700)) ''/h/.cache/fastgcs/b--k'' ''gs://b/k''
          (ex_world [(''/h/.cache/fastgcs/b--k'', ''BODY''), (''/h/.cache/fastgcs/.b--k.etag'', ''v1'')]))))
     = [ReadFile ''/h/.cache/fastgcs/.b--k.etag'',
        Create ''/tmp/d/file'' perm_0644,
        Get (storage_request ''b'' ''k'' (Some ''N'') (Some ''v1'')),
        Remove ''/tmp/d/file'']"
proof -
  let ?env = "ex_ruby_env 100 (etag_server ''BODY'' ''v1'')"
  let ?self = "ex_self (Some ''N'') (Some 3700)"
  let ?p = "''/h/.cache/fastgcs/b--k''"
  let ?ep = "''/h/.cache/fastgcs/.b--k.etag''"
  let ?tmp = "''/tmp/d/file''"
  let ?w = "ex_world [(?p, ''BODY''), (?ep, ''v1'')]"
  let ?resp = "\<lparr>status = 304, chunks = [], body_ok = True, etag = Some ''v1''\<rparr>"
  have ep: "etag_path ?p = ?ep"
    by (simp add: etag_path_def File_join_def File_dirname_def File_basename_def)
  have h1: "token_fresh ?env ?self = Inr True"
    by (simp add: token_fresh_def ex_self_def ex_ruby_fields)
  have h2: "parse_gs_url ''gs://b/k'' = Inr (''b'', ''k'')"
    by (simp add: parse_gs_url_def gs_match_at_def)
  have h3: "?tmp = File_join (mktmpdir ?env) ''file''"
    by (simp add: File_join_def ex_ruby_fields)
  have h4: "files ?w ?tmp = None" by (simp add: ex_world_def)
  have h5: "denied ?w ?tmp = False" by (simp add: ex_world_def)
  have h6: "content_at ?w (etag_path ?p) = Some ''v1''"
    by (simp add: ep ex_world_def content_at_def)
  have at: "at_token ?self = Some ''N''" by (simp add: ex_self_def)
  have h7: "storage_request ''b'' ''k'' (Some ''N'') (Some ''v1'')
              = storage_request ''b'' ''k'' (at_token ?self) (Some ''v1'')"
    by (simp add: at)
  have h8: "storage ?env (storage_request ''b'' ''k'' (Some ''N'') (Some ''v1'')) = Some ?resp"
    by (simp add: ex_ruby_fields etag_server_def storage_request_def)
  have h9: "status ?resp = 304" by simp
  have um: "perm_0644 AND NOT (umask ?w) = perm_0644" by (simp add: ex_world_def)
  have tr: "trace ?w = []" by (simp add: ex_world_def)
  show ?thesis
    using ruby_revalidation_keeps_files[OF h1 h2 h3 h4 h5 h6 h7 h8 h9 refl]
    by (simp add: um ep tr)
qed

section \<open>Token reuse and token refresh in the Ruby resolver\<close>

lemma update_cache_stores:
  assumes "denied w (CREDENTIAL_CACHE env) = False"
  shows "fst (update_cache env self w) = None"
    and "content_at (snd (update_cache env self w)) (CREDENTIAL_CACHE env)
           = Some (cache_record_json env (at_token self) (at_expiry self))"
    and "filter is_network (trace (snd (update_cache env self w))) = filter is_network (trace w)"
  using assms
  by (auto simp: update_cache_def File_write_def open_wronly_creat_trunc_def open_wronly_creat_def
      write_file_def write_at_def emit_def content_at_def Let_def split: option.splits)

text \<open>
  Token reuse (the spec's testable property): with no token in memory and a cached
  record whose expiry is in the future, \<^verbatim>\<open>ensure_current_token\<close> takes the cached
  token and goes over the network for nothing: the network events of the trace are
  those it started with.
\<close>

theorem ruby_token_reuse_no_network:
  assumes "at_token self = None"
    and "content_at w (CREDENTIAL_CACHE env) = Some data"
    and "parse_cache_record env data = Some (tok, expiry)"
    and "Time_now env < expiry"
    and "denied w (CREDENTIAL_CACHE env) = False"
  shows "fst (ensure_current_token env self w) = None
     \<and> at_token (fst (snd (ensure_current_token env self w))) = Some tok
     \<and> at_expiry (fst (snd (ensure_current_token env self w))) = Some expiry
     \<and> filter is_network (trace (snd (snd (ensure_current_token env self w))))
         = filter is_network (trace w)"
proof -
  let ?cc = "CREDENTIAL_CACHE env"
  let ?s1 = "self\<lparr>at_token := Some tok, at_expiry := Some expiry\<rparr>"
  let ?w1 = "emit (ReadFile ?cc) w"
  have tf: "token_fresh env self = Inr False" using assms(1) by (simp add: token_fresh_def)
  have t1: "try_access_token_from_cache env self w = (Inr True, ?s1, ?w1)"
    using assms(2-4) by (simp add: try_access_token_from_cache_def Let_def)
  have d: "denied ?w1 ?cc = False" using assms(5) by simp
  note S = update_cache_stores[OF d, of ?s1]
  have n1: "filter is_network (trace ?w1) = filter is_network (trace w)" by (simp add: emit_def)
  have E: "ensure_current_token env self w
             = (fst (update_cache env ?s1 ?w1), ?s1, snd (update_cache env ?s1 ?w1))"
    by (simp add: ensure_current_token_def tf t1 or_else_def case_prod_beta)
  show ?thesis unfolding E using S(1,3) n1 by simp
qed

theorem ruby_token_reuse_no_network_witness:
  "fst (ensure_current_token (ex_ruby_env 100 (reply 200 [])) (ex_self None None)
          (ex_world [(''/h/.config/gcloud/com.shopify.fastgcs.json'', ''U 500'')])) = None
   \<and> at_token (fst (snd (ensure_current_token (ex_ruby_env 100 (reply 200 [])) (ex_self None None)
          (ex_world [(''/h/.config/gcloud/com.shopify.fastgcs.json'', ''U 500'')])))) = Some ''U''
   \<and> filter is_network (trace (snd (snd (ensure_current_token (ex_ruby_env 100 (reply 200 []))
          (ex_self None None)
          (ex_world [(''/h/.config/gcloud/com.shopify.fastgcs.json'', ''U 500'')]))))) = []"
proof -
  let ?env = "ex_ruby_env 100 (reply 200 [])"
  let ?cc = "''/h/.config/gcloud/com.shopify.fastgcs.json''"
  let ?w = "ex_world [(?cc, ''U 500'')]"
  have h1: "at_token (ex_self None None) = None" by (simp add: ex_self_def)
  have h2: "content_at ?w (CREDENTIAL_CACHE ?env) = Some ''U 500''"
    by (simp add: ex_paths ex_world_def content_at_def)
  have h3: "parse_cache_record ?env ''U 500'' = Some (''U'', 500)" by (simp add: ex_ruby_fields)
  have h4: "Time_now ?env < 500" by (simp add: ex_ruby_fields)
  have h5: "denied ?w (CREDENTIAL_CACHE ?env) = False" by (simp add: ex_world_def)
  have tr: "trace ?w = []" by (simp add: ex_world_def)
  show ?thesis
    using ruby_token_reuse_no_network[OF h1 h2 h3 h4 h5] by (simp add: tr)
qed

text \<open>
  Token refresh (the spec's testable property): with no token in memory, no cached
  record, an SDK store that yields no match and a token endpoint that answers 200,
  \<^verbatim>\<open>ensure_current_token\<close> makes exactly one request, the refresh; it holds the new
  token with expiry \<open>now + expires_in\<close> and has stored the record; and a second call
  right after it (the clock unchanged, the token still valid) does nothing at all.
\<close>

theorem ruby_token_refresh_once:
  assumes "at_token self = None"
    and "content_at w (CREDENTIAL_CACHE env) = None"
    and "content_at w (ACCESS_TOKENS_DB env) = Some db"
    and "scan_access_tokens env db = []"
    and "body = refresh_request_json env (at_client_id self) (at_client_secret self)
                  (at_refresh_token self)"
    and "token_endpoint env body = Some (200, answer)"
    and "parse_refresh env answer = Some (Some tok, Some expires_in)"
    and "0 < expires_in"
    and "denied w (CREDENTIAL_CACHE env) = False"
    and "self' = fst (snd (ensure_current_token env self w))"
    and "w' = snd (snd (ensure_current_token env self w))"
  shows "fst (ensure_current_token env self w) = None
     \<and> at_token self' = Some tok
     \<and> at_expiry self' = Some (Time_now env + expires_in)
     \<and> filter is_network (trace w')
         = filter is_network (trace w) @ [Post ''https://oauth2.googleapis.com/token'' body]
     \<and> content_at w' (CREDENTIAL_CACHE env)
         = Some (cache_record_json env (Some tok) (Some (Time_now env + expires_in)))
     \<and> ensure_current_token env self' w' = (None, self', w')"
proof -
  let ?cc = "CREDENTIAL_CACHE env"
  let ?w1 = "emit (ReadFile ?cc) w"
  let ?w2 = "emit (ReadFile (ACCESS_TOKENS_DB env)) ?w1"
  let ?w3 = "emit (Post ''https://oauth2.googleapis.com/token'' body) ?w2"
  let ?s3 = "self\<lparr>at_token := Some tok, at_expiry := Some (Time_now env + expires_in)\<rparr>"
  have tf: "token_fresh env self = Inr False" using assms(1) by (simp add: token_fresh_def)
  have t1: "try_access_token_from_cache env self w = (Inr False, self, ?w1)"
    using assms(2) by (simp add: try_access_token_from_cache_def Let_def)
  have t2: "try_access_token_from_gcloud_db env self ?w1 = (Inr False, self, ?w2)"
    using assms(3,4) by (simp add: try_access_token_from_gcloud_db_def Let_def)
  have t3: "refresh_access_token env self ?w2 = (Inr True, ?s3, ?w3)"
    using assms(5-7) by (simp add: refresh_access_token_def Let_def)
  have d: "denied ?w3 ?cc = False" using assms(9) by simp
  note S = update_cache_stores[OF d, of ?s3]
  have n3: "filter is_network (trace ?w3)
              = filter is_network (trace w) @ [Post ''https://oauth2.googleapis.com/token'' body]"
    by (simp add: emit_def)
  have E: "ensure_current_token env self w
             = (fst (update_cache env ?s3 ?w3), ?s3, snd (update_cache env ?s3 ?w3))"
    by (simp add: ensure_current_token_def tf t1 t2 t3 or_else_def case_prod_beta)
  have s': "self' = ?s3" and w': "w' = snd (update_cache env ?s3 ?w3)"
    using assms(10,11) E by simp_all
  have fresh: "token_fresh env ?s3 = Inr True" using assms(8) by (simp add: token_fresh_def)
  show ?thesis
    unfolding s' w' using E S n3 ensure_current_token_fresh[OF fresh] by simp
qed

theorem ruby_token_refresh_once_witness:
  "fst (ensure_current_token (ex_ruby_env 100 (reply 200 [])) (ex_self None None)
          (ex_world [(''/h/.config/gcloud/access_tokens.db'', ''no match'')])) = None
   \<and> at_token (fst (snd (ensure_current_token (ex_ruby_env 100 (reply 200 [])) (ex_self None None)
          (ex_world [(''/h/.config/gcloud/access_tokens.db'', ''no match'')])))) = Some ''N''
   \<and> at_expiry (fst (snd (ensure_current_token (ex_ruby_env 100 (reply 200 [])) (ex_self None None)
          (ex_world [(''/h/.config/gcloud/access_tokens.db'', ''no match'')])))) = Some 3700
   \<and> filter is_network (trace (snd (snd (ensure_current_token (ex_ruby_env 100 (reply 200 []))
          (ex_self None None)
          (ex_world [(''/h/.config/gcloud/access_tokens.db'', ''no match'')])))))
       = [Post ''https://oauth2.googleapis.com/token'' ''grant r'']"
proof -
  let ?env = "ex_ruby_env 100 (reply 200 [])"
  let ?db = "''/h/.config/gcloud/access_tokens.db''"
  let ?w = "ex_world [(?db, ''no match'')]"
  let ?self = "ex_self None None"
  have h1: "at_token ?self = None" by (simp add: ex_self_def)
  have h2: "content_at ?w (CREDENTIAL_CACHE ?env) = None"
    by (simp add: ex_paths ex_world_def content_at_def)
  have h3: "content_at ?w (ACCESS_TOKENS_DB ?env) = Some ''no match''"
    by (simp add: ex_paths ex_world_def content_at_def)
  have h4: "scan_access_tokens ?env ''no match'' = []" by (simp add: ex_ruby_fields)
  have h5: "''grant r'' = refresh_request_json ?env (at_client_id ?self) (at_client_secret ?self)
                  (at_refresh_token ?self)"
    by (simp add: ex_ruby_fields ex_self_def)
  have h6: "token_endpoint ?env ''grant r'' = Some (200, ''N 3600'')" by (simp add: ex_ruby_fields)
  have h7: "parse_refresh ?env ''N 3600'' = Some (Some ''N'', Some 3600)"
    by (simp add: ex_ruby_fields)
  have h8: "(0::int) < 3600" by simp
  have h9: "denied ?w (CREDENTIAL_CACHE ?env) = False" by (simp add: ex_world_def)
  have tr: "trace ?w = []" by (simp add: ex_world_def)
  have now: "Time_now ?env = 100" by (simp add: ex_ruby_fields)
  show ?thesis
    using ruby_token_refresh_once[OF h1 h2 h3 h4 h5 h6 h7 h8 h9 refl refl]
    by (simp add: tr now)
qed

section \<open>The end-to-end scenario\<close>

text \<open>
  The end-to-end scenario of the spec on the Ruby class: a token cached on disk, no
  entry for \<^verbatim>\<open>gs://shopify-dev/zodiac.constellations.json\<close> in the object cache. The
  first \<^verbatim>\<open>read\<close> returns exactly the downloaded bytes after one GET, one new cache
  file (by rename; the body, which was still in the buffer, reaches it when the file is
  closed) and one sidecar write; a second \<^verbatim>\<open>read\<close> sends one conditional GET and
  returns the same bytes.
\<close>

lemma ruby_read_twice_example:
  "ruby_read (ex_ruby_env 100 (etag_server ''{stars}'' ''v1'')) (ex_self None None)
       ''gs://shopify-dev/zodiac.constellations.json''
       (ex_world [(''/h/.config/gcloud/com.shopify.fastgcs.json'', ''U 500'')])
     = (Inr ''{stars}'', ex_self (Some ''U'') (Some 500),
        \<lparr>files = [''/h/.config/gcloud/com.shopify.fastgcs.json''
                    \<mapsto> \<lparr>perm = perm_0644, content = ''record of U''\<rparr>,
                  ''/h/.cache/fastgcs/.shopify-dev--zodiac.constellations.json.etag''
                    \<mapsto> \<lparr>perm = perm_0644, content = ''v1''\<rparr>,
                  ''/h/.cache/fastgcs/shopify-dev--zodiac.constellations.json''
                    \<mapsto> \<lparr>perm = perm_0644, content = ''{stars}''\<rparr>],
         umask = 0x12, denied = (\<lambda>p. False),
         trace = [ReadFile ''/h/.cache/fastgcs/.shopify-dev--zodiac.constellations.json.etag'',
                  Create ''/tmp/d/file'' perm_0644,
                  ReadFile ''/h/.config/gcloud/com.shopify.fastgcs.json'',
                  Write ''/h/.config/gcloud/com.shopify.fastgcs.json'' [],
                  Write ''/h/.config/gcloud/com.shopify.fastgcs.json'' ''record of U'',
                  Write ''/h/.config/gcloud/com.shopify.fastgcs.json'' ''record of U'',
                  Get (storage_request ''shopify-dev'' ''zodiac.constellations.json'' (Some ''U'') None),
                  Rename ''/tmp/d/file'' ''/h/.cache/fastgcs/shopify-dev--zodiac.constellations.json'',
                  Create ''/h/.cache/fastgcs/.shopify-dev--zodiac.constellations.json.etag'' perm_0644,
                  Write ''/h/.cache/fastgcs/.shopify-dev--zodiac.constellations.json.etag'' ''v1'',
                  Write ''/h/.cache/fastgcs/shopify-dev--zodiac.constellations.json'' ''{stars}'',
                  ReadFile ''/h/.cache/fastgcs/shopify-dev--zodiac.constellations.json'']\<rparr>)"
  by (simp add: ruby_read_def ruby_update_def cache_path_def parse_gs_url_def gs_match_at_def
      flatten_key_def File_join_def update_http_def etag_path_def File_dirname_def
      File_basename_def get_def storage_request_def bearer_def etag_server_def io_write_def
      io_close_def FileUtils_mv_def rename_file_def remove_file_def ruby_eval)

lemma ruby_read_again_example:
  "(case ruby_read (ex_ruby_env 100 (etag_server ''{stars}'' ''v1'')) (ex_self (Some ''U'') (Some 500))
       ''gs://shopify-dev/zodiac.constellations.json''
       (ex_world [(''/h/.config/gcloud/com.shopify.fastgcs.json'', ''record of U''),
                  (''/h/.cache/fastgcs/shopify-dev--zodiac.constellations.json'', ''{stars}''),
                  (''/h/.cache/fastgcs/.shopify-dev--zodiac.constellations.json.etag'', ''v1'')])
    of (r, self1, w1) \<Rightarrow>
       (r, self1, trace w1,
        content_at w1 ''/h/.cache/fastgcs/shopify-dev--zodiac.constellations.json'',
        content_at w1 ''/h/.cache/fastgcs/.shopify-dev--zodiac.constellations.json.etag'',
        content_at w1 ''/tmp/d/file''))
     = (Inr ''{stars}'', ex_self (Some ''U'') (Some 500),
        [ReadFile ''/h/.cache/fastgcs/.shopify-dev--zodiac.constellations.json.etag'',
         Create ''/tmp/d/file'' perm_0644,
         Get (storage_request ''shopify-dev'' ''zodiac.constellations.json'' (Some ''U'')
                (Some ''v1'')),
         Remove ''/tmp/d/file'',
         ReadFile ''/h/.cache/fastgcs/shopify-dev--zodiac.constellations.json''],
        Some ''{stars}'', Some ''v1'', None)"
  by (simp add: ruby_read_def ruby_update_def cache_path_def parse_gs_url_def gs_match_at_def
      flatten_key_def File_join_def update_http_def etag_path_def File_dirname_def
      File_basename_def get_def storage_request_def bearer_def etag_server_def io_write_def
      io_close_def FileUtils_mv_def rename_file_def remove_file_def ruby_eval)

end
